theory Spec2Isabelle
  imports Main "HOL-Library.Monad_Syntax"
begin

section \<open>DigiVerify: the signature verification engine\<close>

text \<open>
  A shallow embedding of \<^verbatim>\<open>src/utils/signatureVerifier.js\<close> (the verification engine)
  and of the document-level status reduction of \<^verbatim>\<open>src/App.jsx\<close>.

  The engine calls two libraries, node-forge (envelope and certificate decoding, digests)
  and pdf.js (document loading, form-field enumeration). Neither is code of the
  repository: what they return, what they throw and what they do to their arguments is
  a parameter of the model. Everything the repository's own code does with those values
  is written out, and so is every place where a library call may leave it by a throw.
\<close>

subsection \<open>JavaScript values and exceptions\<close>

text \<open>
  A \<^verbatim>\<open>Uint8Array\<close> is a list of bytes; Isabelle's \<^typ>\<open>char\<close> is an 8-bit value, so a
  byte is a \<^typ>\<open>char\<close>. A string that comes out of the document is a list of code
  points (all of them in the basic plane, so one code unit each). Strings that the
  libraries hand over, and messages, are Isabelle strings.
  A \<^verbatim>\<open>Date\<close> is its time value (milliseconds since the epoch), compared as a number.
\<close>

type_synonym byte = char
type_synonym timestamp = int
type_synonym codePoint = int
type_synonym jstring = "codePoint list"

text \<open>A string literal of the source (ASCII), as a string of code points.\<close>

definition literal :: "string \<Rightarrow> jstring" where
  "literal s = map of_char s"

text \<open>A thrown value: an \<^verbatim>\<open>Error\<close> object, of which the code reads \<^verbatim>\<open>.message\<close>.\<close>

datatype jsError = Error (message: string)

text \<open>A settled promise.\<close>

datatype 'r promise = Resolved 'r | Rejected jsError

text \<open>
  The values that occur as elements of a byte-range array: a number, a two-element
  array of numbers (what the document scan stores), or \<^verbatim>\<open>undefined\<close> (an index
  past the end of the array).
\<close>

datatype jsval = Undefined | Num int | NumberPair int int

text \<open>
  A byte-range array is either flat \<^verbatim>\<open>[a, b, c, d]\<close>, the shape whose elements 0 to 3
  \<^verbatim>\<open>verifyPDFSignature\<close> reads, or an array of pairs \<^verbatim>\<open>[[a, b], [c, d]]\<close>, the shape
  \<^verbatim>\<open>verifyPDFSignatures\<close> builds.
\<close>

datatype byteRangeArray = FlatRange "int list" | NestedRange "(int \<times> int) list"

fun element :: "byteRangeArray \<Rightarrow> nat \<Rightarrow> jsval" where
  "element (FlatRange xs) i = (if i < length xs then Num (xs ! i) else Undefined)"
| "element (NestedRange ps) i =
     (if i < length ps then NumberPair (fst (ps ! i)) (snd (ps ! i)) else Undefined)"

text \<open>
  \<^verbatim>\<open>ToIntegerOrInfinity\<close>, as \<^verbatim>\<open>slice\<close> applies it to its arguments: \<^verbatim>\<open>undefined\<close>
  converts to NaN and a two-element array to the string \<^verbatim>\<open>"a,b"\<close>, which is no
  numeric literal, so to NaN as well; NaN becomes 0.
\<close>

fun toIntegerOrInfinity :: "jsval \<Rightarrow> int" where
  "toIntegerOrInfinity (Num k) = k"
| "toIntegerOrInfinity Undefined = 0"
| "toIntegerOrInfinity (NumberPair a b) = 0"

text \<open>
  \<^verbatim>\<open>ToIntegerOrInfinity(start + length)\<close>. The operator \<^verbatim>\<open>+\<close> adds two numbers; with
  \<^verbatim>\<open>undefined\<close> on either side of a number (or on both sides) the sum is NaN; with an
  array on either side both operands become strings and are concatenated, and the
  result contains a comma, so it converts to NaN.
\<close>

fun plusToInteger :: "jsval \<Rightarrow> jsval \<Rightarrow> int" where
  "plusToInteger (Num a) (Num b) = a + b"
| "plusToInteger _ _ = 0"

text \<open>
  \<^verbatim>\<open>Uint8Array.prototype.slice(start, end)\<close> on integers: a negative index counts from
  the end, every index is clamped to \<^verbatim>\<open>[0, length]\<close>, and an empty or inverted range
  gives the empty array. It never throws.
\<close>

definition slice :: "byte list \<Rightarrow> int \<Rightarrow> int \<Rightarrow> byte list" where
  "slice bytes relativeStart relativeEnd =
     (let len = int (length bytes);
          k = (if relativeStart < 0 then max (len + relativeStart) 0 else min relativeStart len);
          final = (if relativeEnd < 0 then max (len + relativeEnd) 0 else min relativeEnd len);
          count = max (final - k) 0
      in take (nat count) (drop (nat k) bytes))"

subsection \<open>Byte range extractor\<close>

text \<open>
  \<^verbatim>\<open>extractByteRange(pdfBytes, byteRanges)\<close>: one \<^verbatim>\<open>slice(start, start + length)\<close> per
  span, then the parts copied one after the other into a fresh array.
\<close>

definition extractByteRange :: "byte list \<Rightarrow> (jsval \<times> jsval) list \<Rightarrow> byte list" where
  "extractByteRange pdfBytes byteRanges =
     (let parts = map (\<lambda>(start, len).
                    slice pdfBytes (toIntegerOrInfinity start) (plusToInteger start len))
                  byteRanges
      in concat parts)"

subsection \<open>The text of the document\<close>

text \<open>
  \<^verbatim>\<open>new TextDecoder('latin1').decode(pdfBytes)\<close>. The label \<^verbatim>\<open>latin1\<close> names the
  windows-1252 decoder: one code point per byte, the byte's own value except for the
  bytes \<^verbatim>\<open>0x80\<close> to \<^verbatim>\<open>0x9F\<close>, which the table below maps.
\<close>

definition windows1252Table :: "codePoint list" where
  "windows1252Table =
     [0x20AC, 0x0081, 0x201A, 0x0192, 0x201E, 0x2026, 0x2020, 0x2021,
      0x02C6, 0x2030, 0x0160, 0x2039, 0x0152, 0x008D, 0x017D, 0x008F,
      0x0090, 0x2018, 0x2019, 0x201C, 0x201D, 0x2022, 0x2013, 0x2014,
      0x02DC, 0x2122, 0x0161, 0x203A, 0x0153, 0x009D, 0x017E, 0x0178]"

definition windows1252 :: "byte \<Rightarrow> codePoint" where
  "windows1252 b =
     (let k = of_char b
      in if 0x80 \<le> k \<and> k \<le> 0x9F then windows1252Table ! nat (k - 0x80) else k)"

definition decodeLatin1 :: "byte list \<Rightarrow> jstring" where
  "decodeLatin1 bytes = map windows1252 bytes"

subsection \<open>Marker scans of the document text\<close>

text \<open>
  The four regular expressions of \<^verbatim>\<open>verifyPDFSignatures\<close>, each run with the \<^verbatim>\<open>g\<close> flag
  in a \<^verbatim>\<open>while ((m = re.exec(pdfText)) !== null)\<close> loop. Every pattern starts with a
  literal and alternates disjoint character classes, so the greedy match at a position
  is the only candidate there: backtracking cannot find another.

  \<^verbatim>\<open>\s\<close> is the white space and the line terminators of the language: tab, line feed,
  vertical tab, form feed, carriage return, space, no-break space, the space separators
  \<^verbatim>\<open>U+1680\<close>, \<^verbatim>\<open>U+2000\<close> to \<^verbatim>\<open>U+200A\<close>, \<^verbatim>\<open>U+202F\<close>, \<^verbatim>\<open>U+205F\<close>, \<^verbatim>\<open>U+3000\<close>, the line
  and paragraph separators and the byte order mark. \<^verbatim>\<open>\d\<close> is \<^verbatim>\<open>[0-9]\<close>.
\<close>

definition isSpace :: "codePoint \<Rightarrow> bool" where
  "isSpace c =
     (c \<in> set [0x09, 0x0A, 0x0B, 0x0C, 0x0D, 0x20, 0xA0, 0x1680, 0x2028, 0x2029, 0x202F,
                0x205F, 0x3000, 0xFEFF] \<or>
      (0x2000 \<le> c \<and> c \<le> 0x200A))"

definition isDigit :: "codePoint \<Rightarrow> bool" where
  "isDigit c = (48 \<le> c \<and> c \<le> 57)"

definition isHexDigit :: "codePoint \<Rightarrow> bool" where
  "isHexDigit c = ((48 \<le> c \<and> c \<le> 57) \<or> (97 \<le> c \<and> c \<le> 102) \<or> (65 \<le> c \<and> c \<le> 70))"

fun stripPrefix :: "jstring \<Rightarrow> jstring \<Rightarrow> jstring option" where
  "stripPrefix [] t = Some t"
| "stripPrefix (p # ps) [] = None"
| "stripPrefix (p # ps) (c # cs) = (if p = c then stripPrefix ps cs else None)"

text \<open>
  \<^verbatim>\<open>parseInt\<close> of a string of decimal digits. The runtime's numbers are doubles: an
  integer beyond \<open>2^53\<close> is rounded there and exact here. No slice differs for that,
  both values lying beyond the end of any array.
\<close>

definition digitValue :: "codePoint \<Rightarrow> int" where
  "digitValue c = c - 48"

definition parseInt :: "jstring \<Rightarrow> int" where
  "parseInt ds = foldl (\<lambda>acc c. 10 * acc + digitValue c) 0 ds"

text \<open>
  The pieces of a pattern, each on the text that is left: \<^verbatim>\<open>\s*\<close>, one literal
  character, and a greedy run of at least one character of a class (\<^verbatim>\<open>\d+\<close>, \<^verbatim>\<open>\s+\<close>)
  with its capture.
\<close>

definition skipSpaces :: "jstring \<Rightarrow> jstring" where
  "skipSpaces t = dropWhile isSpace t"

definition expectChar :: "char \<Rightarrow> jstring \<Rightarrow> jstring option" where
  "expectChar c t = (case t of [] \<Rightarrow> None | x # r \<Rightarrow> if x = of_char c then Some r else None)"

definition many1 :: "(codePoint \<Rightarrow> bool) \<Rightarrow> jstring \<Rightarrow> (jstring \<times> jstring) option" where
  "many1 cls t = (if takeWhile cls t = [] then None else Some (takeWhile cls t, dropWhile cls t))"

definition spaces1 :: "jstring \<Rightarrow> jstring option" where
  "spaces1 t = map_option snd (many1 isSpace t)"

text \<open>
  One match attempt at the start of the text: the captured groups and the text after
  the match, or \<open>None\<close>.

  \<^verbatim>\<open>/\/ByteRange\s*\[\s*(\d+)\s+(\d+)\s+(\d+)\s+(\d+)\s*\]/\<close>
\<close>

definition matchByteRange :: "jstring \<Rightarrow> ((jstring \<times> jstring \<times> jstring \<times> jstring) \<times> jstring) option" where
  "matchByteRange t =
     do {
       r0 \<leftarrow> stripPrefix (literal ''/ByteRange'') t;
       r1 \<leftarrow> expectChar (CHR ''['') (skipSpaces r0);
       (d1, r2) \<leftarrow> many1 isDigit (skipSpaces r1);
       r3 \<leftarrow> spaces1 r2;
       (d2, r4) \<leftarrow> many1 isDigit r3;
       r5 \<leftarrow> spaces1 r4;
       (d3, r6) \<leftarrow> many1 isDigit r5;
       r7 \<leftarrow> spaces1 r6;
       (d4, r8) \<leftarrow> many1 isDigit r7;
       rest \<leftarrow> expectChar (CHR '']'') (skipSpaces r8);
       Some ((d1, d2, d3, d4), rest)
     }"

text \<open>\<^verbatim>\<open>/\/Contents\s*<([0-9a-fA-F]+)>/\<close>\<close>

definition matchContents :: "jstring \<Rightarrow> (jstring \<times> jstring) option" where
  "matchContents t =
     do {
       r0 \<leftarrow> stripPrefix (literal ''/Contents'') t;
       r1 \<leftarrow> expectChar (CHR ''<'') (skipSpaces r0);
       (hex, r2) \<leftarrow> many1 isHexDigit r1;
       rest \<leftarrow> expectChar (CHR ''>'') r2;
       Some (hex, rest)
     }"

text \<open>
  \<^verbatim>\<open>/\/Reason\s*\(([^)]*)\)/\<close> and \<^verbatim>\<open>/\/Location\s*\(([^)]*)\)/\<close>: the same pattern
  after the marker's name. \<^verbatim>\<open>[^)]*\<close> may match nothing.
\<close>

definition notClosing :: "codePoint \<Rightarrow> bool" where
  "notClosing x = (x \<noteq> of_char (CHR '')''))"

definition matchParenthesized :: "string \<Rightarrow> jstring \<Rightarrow> (jstring \<times> jstring) option" where
  "matchParenthesized marker t =
     do {
       r0 \<leftarrow> stripPrefix (literal marker) t;
       r1 \<leftarrow> expectChar (CHR ''('') (skipSpaces r0);
       rest \<leftarrow> expectChar (CHR '')'') (dropWhile notClosing r1);
       Some (takeWhile notClosing r1, rest)
     }"

lemma stripPrefix_length:
  "stripPrefix p t = Some r \<Longrightarrow> length r + length p = length t"
  by (induction p t rule: stripPrefix.induct) (auto split: if_splits)

lemma skipSpaces_length: "length (skipSpaces t) \<le> length t"
  by (simp add: skipSpaces_def length_dropWhile_le)

lemma expectChar_length: "expectChar c t = Some r \<Longrightarrow> length r < length t"
  by (auto simp: expectChar_def split: list.splits if_splits)

lemma many1_length: "many1 cls t = Some (d, r) \<Longrightarrow> length r \<le> length t"
  by (auto simp: many1_def length_dropWhile_le split: if_splits)

lemma spaces1_length: "spaces1 t = Some r \<Longrightarrow> length r \<le> length t"
  by (auto simp: spaces1_def dest: many1_length)

lemma matchByteRange_shorter:
  assumes "matchByteRange t = Some (v, rest)"
  shows "length rest < length t"
proof -
  from assms obtain r0 r1 d1 r2 r3 d2 r4 r5 d3 r6 r7 d4 r8 where
    s: "stripPrefix (literal ''/ByteRange'') t = Some r0"
       "expectChar (CHR ''['') (skipSpaces r0) = Some r1"
       "many1 isDigit (skipSpaces r1) = Some (d1, r2)"
       "spaces1 r2 = Some r3" "many1 isDigit r3 = Some (d2, r4)"
       "spaces1 r4 = Some r5" "many1 isDigit r5 = Some (d3, r6)"
       "spaces1 r6 = Some r7" "many1 isDigit r7 = Some (d4, r8)"
       "expectChar (CHR '']'') (skipSpaces r8) = Some rest"
    unfolding matchByteRange_def
    by (auto simp: bind_eq_Some_conv split: prod.splits)
  note l = stripPrefix_length [OF s(1)] expectChar_length [OF s(2)] many1_length [OF s(3)]
    spaces1_length [OF s(4)] many1_length [OF s(5)] spaces1_length [OF s(6)]
    many1_length [OF s(7)] spaces1_length [OF s(8)] many1_length [OF s(9)]
    expectChar_length [OF s(10)] skipSpaces_length [of r0] skipSpaces_length [of r1]
    skipSpaces_length [of r8]
  from l show ?thesis by linarith
qed

lemma matchContents_shorter:
  assumes "matchContents t = Some (v, rest)"
  shows "length rest < length t"
proof -
  from assms obtain r0 r1 hex r2 where
    s: "stripPrefix (literal ''/Contents'') t = Some r0"
       "expectChar (CHR ''<'') (skipSpaces r0) = Some r1"
       "many1 isHexDigit r1 = Some (hex, r2)"
       "expectChar (CHR ''>'') r2 = Some rest"
    unfolding matchContents_def
    by (auto simp: bind_eq_Some_conv split: prod.splits)
  note l = stripPrefix_length [OF s(1)] expectChar_length [OF s(2)] many1_length [OF s(3)]
    expectChar_length [OF s(4)] skipSpaces_length [of r0]
  from l show ?thesis by linarith
qed

lemma matchParenthesized_shorter:
  assumes "matchParenthesized marker t = Some (v, rest)"
  shows "length rest < length t"
proof -
  from assms obtain r0 r1 where
    s: "stripPrefix (literal marker) t = Some r0"
       "expectChar (CHR ''('') (skipSpaces r0) = Some r1"
       "expectChar (CHR '')'') (dropWhile notClosing r1) = Some rest"
    unfolding matchParenthesized_def
    by (auto simp: bind_eq_Some_conv)
  note l = stripPrefix_length [OF s(1)] expectChar_length [OF s(2)] expectChar_length [OF s(3)]
    skipSpaces_length [of r0] length_dropWhile_le [of notClosing r1]
  from l show ?thesis by linarith
qed

text \<open>
  The \<^verbatim>\<open>exec\<close> loops. A successful match continues after its last character (the
  \<^verbatim>\<open>lastIndex\<close> of a global expression); a failed attempt moves the start one character
  on. \<open>pos\<close> is the index of the text that is left, recorded with each match as the
  code does (\<^verbatim>\<open>brIndex\<close>, \<^verbatim>\<open>index\<close>).
\<close>

record sigData =
  byteRange :: byteRangeArray
  brIndex :: nat

record contentsMatch =
  hex :: jstring
  index :: nat

record textMatch =
  matched :: jstring
  index :: nat

function scanByteRange :: "nat \<Rightarrow> jstring \<Rightarrow> sigData list" where
  "scanByteRange pos t =
     (case matchByteRange t of
        Some ((g1, g2, g3, g4), rest) \<Rightarrow>
          \<lparr>byteRange = NestedRange [(parseInt g1, parseInt g2), (parseInt g3, parseInt g4)],
           brIndex = pos\<rparr>
          # scanByteRange (pos + (length t - length rest)) rest
      | None \<Rightarrow> (case t of [] \<Rightarrow> [] | c # t' \<Rightarrow> scanByteRange (Suc pos) t'))"
  by pat_completeness auto
termination
  by (relation "measure (\<lambda>(pos, t). length t)") (auto dest: matchByteRange_shorter)

function scanContents :: "nat \<Rightarrow> jstring \<Rightarrow> contentsMatch list" where
  "scanContents pos t =
     (case matchContents t of
        Some (h, rest) \<Rightarrow>
          \<lparr>hex = h, index = pos\<rparr> # scanContents (pos + (length t - length rest)) rest
      | None \<Rightarrow> (case t of [] \<Rightarrow> [] | c # t' \<Rightarrow> scanContents (Suc pos) t'))"
  by pat_completeness auto
termination
  by (relation "measure (\<lambda>(pos, t). length t)") (auto dest: matchContents_shorter)

function scanParenthesized :: "string \<Rightarrow> nat \<Rightarrow> jstring \<Rightarrow> textMatch list" where
  "scanParenthesized marker pos t =
     (case matchParenthesized marker t of
        Some (v, rest) \<Rightarrow>
          \<lparr>matched = v, index = pos\<rparr>
          # scanParenthesized marker (pos + (length t - length rest)) rest
      | None \<Rightarrow> (case t of [] \<Rightarrow> [] | c # t' \<Rightarrow> scanParenthesized marker (Suc pos) t'))"
  by pat_completeness auto
termination
  by (relation "measure (\<lambda>(marker, pos, t). length t)") (auto dest: matchParenthesized_shorter)

declare scanByteRange.simps [simp del] scanContents.simps [simp del]
  scanParenthesized.simps [simp del]

subsection \<open>What node-forge returns\<close>

text \<open>
  A decoded certificate, as far as the engine reads it. A distinguished name is its
  attribute list, in encoding order, and the hash node-forge computes of it. A public
  key exposes a modulus \<^verbatim>\<open>n\<close> when it is an RSA key. An extension's value is a string,
  or a structured value, kept as the text \<^verbatim>\<open>JSON.stringify\<close> makes of it.
\<close>

record attribute =
  shortName :: string
  attrValue :: string

record distinguishedName =
  attributes :: "attribute list"
  hash :: string

record validity =
  notBefore :: timestamp
  notAfter :: timestamp

record publicKey =
  modulus :: "nat option"

datatype extensionValue = StringValue string | StructuredValue string

record extension =
  extName :: string
  extValue :: extensionValue

record certificate =
  subject :: distinguishedName
  issuer :: distinguishedName
  serialNumber :: string
  validity :: validity
  publicKey :: publicKey
  extensions :: "extension list"

text \<open>
  \<^verbatim>\<open>entity.getField(sn)\<close> with a string argument: the first attribute whose short name
  is \<open>sn\<close>, or \<^verbatim>\<open>null\<close>.
\<close>

definition getField :: "distinguishedName \<Rightarrow> string \<Rightarrow> attribute option" where
  "getField entity sn = find (\<lambda>a. shortName a = sn) (attributes entity)"

text \<open>
  A signer of a decoded envelope: its digest object, when it has one (the bytes fed to
  it so far), and its signed attributes. Of a signed attribute the engine reads the type
  and, for the signing time, \<^verbatim>\<open>forge.asn1.utcTimeToDate(attr.value[0].value)\<close>, which
  may throw.
\<close>

record authenticatedAttribute =
  attrType :: string
  utcTime :: "jsError + timestamp"

record signerInfo =
  md :: "byte list option"
  authenticatedAttributes :: "authenticatedAttribute list option"

record pkcs7 =
  signers :: "signerInfo list"
  certificates :: "certificate list"

text \<open>
  The library and runtime calls of the engine. Each returns its value or throws.

  \<open>encodeCertificate v c\<close> is \<^verbatim>\<open>forge.asn1.toDer(v.toAsn1()).getBytes()\<close> for the
  certificate \<open>c\<close> held in the variable named \<open>v\<close>: the DER bytes, or the throw (of
  \<^verbatim>\<open>toAsn1\<close> when the object has no such method, or of the encoder). The name is an
  argument because a runtime may quote the expression in the message of a
  \<^verbatim>\<open>TypeError\<close>.
  \<open>verify\<close> is the envelope's own \<^verbatim>\<open>p7.verify()\<close>, called on the envelope as it stands
  after the signer's digest object was fed.
  \<open>mdOfUndefined\<close> is the \<^verbatim>\<open>TypeError\<close> the runtime throws for \<^verbatim>\<open>signerInfo.md\<close> when
  \<^verbatim>\<open>signerInfo\<close> is \<^verbatim>\<open>undefined\<close>.
  \<open>toIndex\<close> is the length the runtime gives \<^verbatim>\<open>new Uint8Array(s)\<close> for a string \<open>s\<close>
  (\<^verbatim>\<open>ToIndex\<close>: the number the string reads as, 0 when it reads as none; a
  \<^verbatim>\<open>RangeError\<close> when it is too large).
  \<open>toLocaleDateString\<close> renders a date in the runtime's locale.
\<close>

record 'a platform =
  hexToBytes :: "jstring \<Rightarrow> jsError + byte list"
  fromDer :: "byte list \<Rightarrow> jsError + 'a"
  messageFromAsn1 :: "'a \<Rightarrow> jsError + pkcs7"
  certificateFromPem :: "string \<Rightarrow> jsError + certificate"
  certificateFromAsn1 :: "'a \<Rightarrow> jsError + certificate"
  encodeCertificate :: "string \<Rightarrow> certificate \<Rightarrow> jsError + byte list"
  sha256Hex :: "byte list \<Rightarrow> string"
  verify :: "pkcs7 \<Rightarrow> jsError + bool"
  oidSigningTime :: string
  mdOfUndefined :: jsError
  toIndex :: "string \<Rightarrow> jsError + nat"
  toLocaleDateString :: "timestamp \<Rightarrow> string"

text \<open>\<^verbatim>\<open>parseCMSSignature(hexContents)\<close>: three library calls, the first throw wins.\<close>

definition parseCMSSignature :: "'a platform \<Rightarrow> jstring \<Rightarrow> jsError + pkcs7" where
  "parseCMSSignature lib hexContents =
     (case hexToBytes lib hexContents of
        Inl e \<Rightarrow> Inl e
      | Inr derBytes \<Rightarrow>
          (case fromDer lib derBytes of
             Inl e \<Rightarrow> Inl e
           | Inr asn1 \<Rightarrow> messageFromAsn1 lib asn1))"

subsection \<open>What pdf.js returns\<close>

text \<open>
  A loaded document: its page count and the outcome of \<^verbatim>\<open>getFieldObjects()\<close>, which is
  \<^verbatim>\<open>null\<close> or an object from field names to arrays of field objects, its keys in the
  order \<^verbatim>\<open>Object.keys\<close> lists them. Loading a document may throw.

  \<^verbatim>\<open>getDocument({ data: pdfBytes })\<close> is given the caller's array itself. A loader that
  takes ownership of it transfers its buffer to the worker, and the caller's array is
  left detached, with no bytes; pdf.js does so in the versions that ship the
  \<^verbatim>\<open>pdf.worker.min.mjs\<close> the source configures. \<open>takesOwnership\<close> says which loader it
  is.
\<close>

record fieldObject =
  fieldType :: string

record pdfDocument =
  numPages :: nat
  getFieldObjects :: "jsError + (string \<times> fieldObject list) list option"

record pdfjs =
  getDocument :: "byte list \<Rightarrow> jsError + pdfDocument"
  takesOwnership :: bool

subsection \<open>Results\<close>

text \<open>
  The signature descriptor \<^verbatim>\<open>sigObj\<close>; an entry of a result's certificate chain; the
  certificate inspector's result; the per-signature \<^verbatim>\<open>result\<close> object; a document's
  signature entry \<^verbatim>\<open>{fieldName, ...verResult}\<close>; and the document's output. A field
  that may hold \<^verbatim>\<open>null\<close> is an option. Several objects share property names; the
  selectors of the earlier records are written with their record's name.
\<close>

record sigObj =
  byteRange :: "byteRangeArray option"
  contents :: "jstring option"
  reason :: "jstring option"
  location :: "jstring option"

record certificateEntry =
  subject :: string
  issuer :: string
  validFrom :: timestamp
  validTo :: timestamp
  serialNumber :: string
  isExpired :: bool
  fingerprint :: string

record certificateResult =
  subject :: "string \<rightharpoonup> string"
  issuer :: "string \<rightharpoonup> string"
  serialNumber :: string
  validFrom :: timestamp
  validTo :: timestamp
  isExpired :: bool
  isSelfSigned :: bool
  fingerprint :: string
  publicKeyAlgorithm :: string
  keySize :: "nat option"
  extensions :: "(string \<times> string) list"

record VerificationResult =
  signerName :: string
  signerEmail :: "string option"
  signingTime :: "timestamp option"
  reason :: "jstring option"
  location :: "jstring option"
  certificates :: "certificateEntry list"
  integrityValid :: bool
  certTrustValid :: bool
  isExpired :: bool
  isSelfSigned :: bool
  errors :: "string list"
  warnings :: "string list"

record signatureEntry = VerificationResult +
  fieldName :: string

record verificationOutput =
  numPages :: nat
  signatures :: "signatureEntry list"
  hasSignatures :: bool
  message :: "string option"

subsection \<open>Signature verifier\<close>

text \<open>\<^verbatim>\<open>xs.join(', ')\<close>\<close>

fun join :: "string list \<Rightarrow> string" where
  "join [] = []"
| "join [x] = x"
| "join (x # y # ys) = x @ '', '' @ join (y # ys)"

text \<open>
  The display name of the chain listing: the Common Name's value, else every attribute
  as \<^verbatim>\<open>shortName=value\<close>, joined.
\<close>

definition displayName :: "distinguishedName \<Rightarrow> string" where
  "displayName entity =
     (case getField entity ''CN'' of
        Some cn \<Rightarrow> attrValue cn
      | None \<Rightarrow> join (map (\<lambda>a. shortName a @ ''='' @ attrValue a) (attributes entity)))"

text \<open>
  The callback of \<^verbatim>\<open>p7.certificates.map((c) => ({...}))\<close>. Of the properties of the
  object it builds only the fingerprint can throw: \<^verbatim>\<open>c.toAsn1()\<close> and the encoder are
  called there, and nothing catches between them and the outer \<^verbatim>\<open>try\<close>.
\<close>

definition chainEntry :: "'a platform \<Rightarrow> timestamp \<Rightarrow> certificate \<Rightarrow> jsError + certificateEntry" where
  "chainEntry lib now c =
     (case encodeCertificate lib ''c'' c of
        Inl e \<Rightarrow> Inl e
      | Inr der \<Rightarrow>
          Inr \<lparr>certificateEntry.subject = displayName (certificate.subject c),
               certificateEntry.issuer = displayName (certificate.issuer c),
               certificateEntry.validFrom = notBefore (validity c),
               certificateEntry.validTo = notAfter (validity c),
               certificateEntry.serialNumber = certificate.serialNumber c,
               certificateEntry.isExpired = (now > notAfter (validity c)),
               certificateEntry.fingerprint = sha256Hex lib der\<rparr>)"

text \<open>\<^verbatim>\<open>p7.certificates.map(...)\<close>: the entries in order; the first throw ends the map.\<close>

fun chainListing :: "'a platform \<Rightarrow> timestamp \<Rightarrow> certificate list \<Rightarrow> jsError + certificateEntry list" where
  "chainListing lib now [] = Inr []"
| "chainListing lib now (c # cs) =
     (case chainEntry lib now c of
        Inl e \<Rightarrow> Inl e
      | Inr x \<Rightarrow>
          (case chainListing lib now cs of
             Inl e \<Rightarrow> Inl e
           | Inr xs \<Rightarrow> Inr (x # xs)))"

text \<open>
  The inner \<^verbatim>\<open>try\<close> of the certificate branch. Reading \<^verbatim>\<open>signerInfo.md\<close> of an
  absent signer throws a \<^verbatim>\<open>TypeError\<close>. The signed bytes are fed to the signer's digest
  object when it has one, else to a fresh digest that nothing reads; then the envelope
  verifies itself. The \<^verbatim>\<open>catch\<close> records the throw and lets the branch go on.
\<close>

definition feedSigner :: "pkcs7 \<Rightarrow> signerInfo \<Rightarrow> byte list \<Rightarrow> pkcs7" where
  "feedSigner p7 si signedBytes =
     (case md si of
        None \<Rightarrow> p7
      | Some fed \<Rightarrow> p7\<lparr>signers := si\<lparr>md := Some (fed @ signedBytes)\<rparr> # tl (signers p7)\<rparr>)"

definition integrityCheck ::
  "'a platform \<Rightarrow> pkcs7 \<Rightarrow> signerInfo option \<Rightarrow> byte list \<Rightarrow> VerificationResult \<Rightarrow> VerificationResult" where
  "integrityCheck lib p7 signerInfo signedBytes result =
     (case (case signerInfo of
              None \<Rightarrow> Inl (mdOfUndefined lib)
            | Some si \<Rightarrow> verify lib (feedSigner p7 si signedBytes)) of
        Inr digestVerified \<Rightarrow> result\<lparr>integrityValid := digestVerified\<rparr>
      | Inl e \<Rightarrow>
          result\<lparr>integrityValid := False,
                 errors := errors result @ [''Integrity verification failed: '' @ jsError.message e]\<rparr>)"

text \<open>
  The \<^verbatim>\<open>if (cert) { ... }\<close> branch, on the leaf certificate: the \<^verbatim>\<open>result\<close> object as
  the branch leaves it, with the exception when it is left by a throw. A throw in the
  chain listing leaves the branch before \<^verbatim>\<open>result.certificates\<close> is assigned, before
  the integrity check and before \<^verbatim>\<open>result.certTrustValid\<close> is assigned.
\<close>

definition certificateBranch ::
  "'a platform \<Rightarrow> timestamp \<Rightarrow> pkcs7 \<Rightarrow> signerInfo option \<Rightarrow> certificate \<Rightarrow> byte list \<Rightarrow>
     VerificationResult \<Rightarrow> jsError option \<times> VerificationResult" where
  "certificateBranch lib now p7 signerInfo cert signedBytes result =
     (let cn = getField (certificate.subject cert) ''CN'';
          email = (case getField (certificate.subject cert) ''E'' of
                     Some a \<Rightarrow> Some a
                   | None \<Rightarrow> getField (certificate.subject cert) ''emailAddress'');
          r1 = result\<lparr>signerName := (case cn of Some a \<Rightarrow> attrValue a | None \<Rightarrow> ''Unknown''),
                      signerEmail := map_option attrValue email\<rparr>;
          r2 = r1\<lparr>isExpired := (now > notAfter (validity cert))\<rparr>;
          r3 = (if isExpired r2
                then r2\<lparr>warnings := warnings r2 @
                       [''Certificate expired on '' @ toLocaleDateString lib (notAfter (validity cert))]\<rparr>
                else r2);
          r4 = r3\<lparr>isSelfSigned := (hash (certificate.issuer cert) = hash (certificate.subject cert))\<rparr>;
          r5 = (if isSelfSigned r4
                then r4\<lparr>warnings := warnings r4 @
                       [''Certificate is self-signed and may not be trusted.'']\<rparr>
                else r4)
      in (case chainListing lib now (pkcs7.certificates p7) of
            Inl e \<Rightarrow> (Some e, r5)
          | Inr entries \<Rightarrow>
              (let r6 = r5\<lparr>certificates := entries\<rparr>;
                   r7 = integrityCheck lib p7 signerInfo signedBytes r6
               in (None, r7\<lparr>certTrustValid := (\<not> isSelfSigned r7 \<and> \<not> isExpired r7)\<rparr>))))"

text \<open>
  The signing time: looked up only when there is a signer with signed attributes, and
  decoded only when an attribute of the signing-time type is found. \<open>Inr None\<close> is
  "nothing to assign", \<open>Inl\<close> the decoder's throw.
\<close>

definition extractSigningTime :: "'a platform \<Rightarrow> signerInfo option \<Rightarrow> jsError + timestamp option" where
  "extractSigningTime lib signerInfo =
     (case signerInfo of
        None \<Rightarrow> Inr None
      | Some si \<Rightarrow>
          (case authenticatedAttributes si of
             None \<Rightarrow> Inr None
           | Some attrs \<Rightarrow>
               (case find (\<lambda>a. attrType a = oidSigningTime lib) attrs of
                  None \<Rightarrow> Inr None
                | Some signingTimeAttr \<Rightarrow>
                    (case utcTime signingTimeAttr of
                       Inl e \<Rightarrow> Inl e
                     | Inr t \<Rightarrow> Inr (Some t)))))"

text \<open>\<^verbatim>\<open>s || null\<close> on a string or \<^verbatim>\<open>null\<close>: the empty string is falsy.\<close>

definition orNull :: "jstring option \<Rightarrow> jstring option" where
  "orNull s = (case s of None \<Rightarrow> None | Some v \<Rightarrow> if v = [] then None else Some v)"

definition initialResult :: VerificationResult where
  "initialResult =
     \<lparr>signerName = ''Unknown'', signerEmail = None, signingTime = None, reason = None,
      location = None, certificates = [], integrityValid = False, certTrustValid = False,
      isExpired = False, isSelfSigned = False, errors = [], warnings = []\<rparr>"

text \<open>
  The outer \<^verbatim>\<open>try\<close> block of \<^verbatim>\<open>verifyPDFSignature\<close>, from a \<^verbatim>\<open>result\<close> object to the
  object as the block leaves it, with the exception when the block was left by a throw
  (\<open>None\<close> when it ran to its end or returned early). \<open>now\<close> is the \<^verbatim>\<open>new Date()\<close> of
  the certificate branch. \<open>afterParse\<close> is the part of the block that follows a
  successful \<^verbatim>\<open>parseCMSSignature\<close>, \<open>afterCertificate\<close> the part that follows the
  \<^verbatim>\<open>if (cert) ... else ...\<close>: the signing time, then reason and location.
\<close>

definition afterCertificate ::
  "'a platform \<Rightarrow> sigObj \<Rightarrow> signerInfo option \<Rightarrow> VerificationResult \<Rightarrow>
     jsError option \<times> VerificationResult" where
  "afterCertificate lib sigObj signerInfo r1 =
     (case extractSigningTime lib signerInfo of
        Inl err \<Rightarrow> (Some err, r1)
      | Inr t \<Rightarrow>
          (let r2 = (case t of None \<Rightarrow> r1 | Some d \<Rightarrow> r1\<lparr>signingTime := Some d\<rparr>)
           in (None, r2\<lparr>reason := orNull (sigObj.reason sigObj),
                        location := orNull (sigObj.location sigObj)\<rparr>)))"

definition afterParse ::
  "'a platform \<Rightarrow> timestamp \<Rightarrow> sigObj \<Rightarrow> pkcs7 \<Rightarrow> byte list \<Rightarrow> VerificationResult \<Rightarrow>
     jsError option \<times> VerificationResult" where
  "afterParse lib now sigObj p7 signedBytes result =
     (let signerInfo = (case signers p7 of [] \<Rightarrow> None | s # _ \<Rightarrow> Some s);
          cert = (case pkcs7.certificates p7 of [] \<Rightarrow> None | c # _ \<Rightarrow> Some c)
      in (case cert of
            None \<Rightarrow>
              afterCertificate lib sigObj signerInfo
                (result\<lparr>errors := errors result @ [''No certificates found in signature.'']\<rparr>)
          | Some c \<Rightarrow>
              (case certificateBranch lib now p7 signerInfo c signedBytes result of
                 (Some err, r) \<Rightarrow> (Some err, r)
               | (None, r1) \<Rightarrow> afterCertificate lib sigObj signerInfo r1)))"

definition tryBlock ::
  "'a platform \<Rightarrow> timestamp \<Rightarrow> sigObj \<Rightarrow> byte list \<Rightarrow> VerificationResult \<Rightarrow>
     jsError option \<times> VerificationResult" where
  "tryBlock lib now sigObj pdfBytes result =
     (let missing = (None, result\<lparr>errors := errors result @
                       [''Missing ByteRange or Contents in signature dictionary.'']\<rparr>)
      in (case sigObj.byteRange sigObj of
            None \<Rightarrow> missing
          | Some br \<Rightarrow>
             (case sigObj.contents sigObj of
                None \<Rightarrow> missing
              | Some hexContents \<Rightarrow>
                 (if hexContents = [] then missing
                  else
                   (let signedBytes = extractByteRange pdfBytes
                          [(element br 0, element br 1), (element br 2, element br 3)]
                    in (case parseCMSSignature lib hexContents of
                          Inl e \<Rightarrow>
                            (None, result\<lparr>errors := errors result @
                                     [''Failed to parse signature CMS data: '' @ jsError.message e]\<rparr>)
                        | Inr p7 \<Rightarrow> afterParse lib now sigObj p7 signedBytes result))))))"

text \<open>
  The \<^verbatim>\<open>catch\<close> of the outer \<^verbatim>\<open>try\<close>, which appends the exception's message to the
  errors, and the final \<^verbatim>\<open>return result\<close>.
\<close>

fun catchUnexpected :: "jsError option \<times> VerificationResult \<Rightarrow> VerificationResult" where
  "catchUnexpected (None, result) = result"
| "catchUnexpected (Some err, result) =
     result\<lparr>errors := errors result @ [''Unexpected error: '' @ jsError.message err]\<rparr>"

text \<open>
  \<^verbatim>\<open>verifyPDFSignature(sigObj, pdfBytes)\<close>, an \<^verbatim>\<open>async\<close> function: its promise resolves
  with what the function returns and would reject with what it throws.
\<close>

definition verifyPDFSignature ::
  "'a platform \<Rightarrow> timestamp \<Rightarrow> sigObj \<Rightarrow> byte list \<Rightarrow> VerificationResult promise" where
  "verifyPDFSignature lib now sigObj pdfBytes =
     Resolved (catchUnexpected (tryBlock lib now sigObj pdfBytes initialResult))"

subsection \<open>Status classifier\<close>

text \<open>
  \<^verbatim>\<open>getOverallStatus(sig)\<close>, on a result or on a document's signature entry. The guard
  \<^verbatim>\<open>sig.errors &&\<close> is for an object without an errors array; every result has one.
\<close>

definition getOverallStatus :: "'z VerificationResult_scheme \<Rightarrow> string" where
  "getOverallStatus sig =
     (if length (errors sig) > 0 then ''invalid''
      else if isExpired sig then ''expired''
      else if isSelfSigned sig then ''self-signed''
      else if \<not> integrityValid sig then ''tampered''
      else if \<not> certTrustValid sig then ''untrusted''
      else ''valid'')"

subsection \<open>Document verification\<close>

text \<open>
  The signature-type fields of the form, as \<^verbatim>\<open>{name, field}\<close> pairs in enumeration
  order.
\<close>

definition signatureFields ::
  "(string \<times> fieldObject list) list option \<Rightarrow> (string \<times> fieldObject) list" where
  "signatureFields acroForm =
     (case acroForm of
        None \<Rightarrow> []
      | Some form \<Rightarrow>
          concat (map (\<lambda>(name, fields).
                    map (\<lambda>field. (name, field))
                      (filter (\<lambda>field. fieldType field = ''signature'') fields))
                  form))"

text \<open>
  What the caller's array \<^verbatim>\<open>pdfBytes\<close> holds once the document is loaded: nothing when
  the loader took ownership of it, else what it held.
\<close>

definition retained :: "pdfjs \<Rightarrow> byte list \<Rightarrow> byte list" where
  "retained pdf pdfBytes = (if takesOwnership pdf then [] else pdfBytes)"

text \<open>
  \<^verbatim>\<open>sigDataList.map((sd, i) => ...)\<close>: the descriptor of the \<open>i\<close>-th byte-range match
  takes the \<open>i\<close>-th element of each of the other lists, \<^verbatim>\<open>null\<close> where a list is too
  short.
\<close>

definition sigObjects ::
  "sigData list \<Rightarrow> contentsMatch list \<Rightarrow> textMatch list \<Rightarrow> textMatch list \<Rightarrow> sigObj list" where
  "sigObjects sigDataList allContents allReasons allLocations =
     map (\<lambda>(i, sd).
            \<lparr>sigObj.byteRange = Some (sigData.byteRange sd),
             sigObj.contents = (if i < length allContents then Some (hex (allContents ! i)) else None),
             sigObj.reason = (if i < length allReasons then Some (matched (allReasons ! i)) else None),
             sigObj.location =
               (if i < length allLocations then Some (matched (allLocations ! i)) else None)\<rparr>)
         (enumerate 0 sigDataList)"

text \<open>The decimal digits of a number, for the synthetic field name \<^verbatim>\<open>Signature N\<close>.\<close>

function decimal :: "nat \<Rightarrow> string" where
  "decimal k = (if k < 10 then [char_of (48 + k)] else decimal (k div 10) @ [char_of (48 + k mod 10)])"
  by pat_completeness auto
termination
  by (relation "measure id") auto

declare decimal.simps [simp del]

text \<open>
  \<^verbatim>\<open>{fieldName, ...verResult}\<close>
\<close>

definition entry :: "string \<Rightarrow> VerificationResult \<Rightarrow> signatureEntry" where
  "entry name verResult = VerificationResult.extend verResult (signatureEntry.fields name)"

text \<open>
  The verification loop, from index \<open>i\<close> on the descriptors that are left: the field
  name is the \<open>i\<close>-th enumerated name, or a synthetic one; the results are collected in
  order. \<open>clock i\<close> is the time the \<open>i\<close>-th verification reads. A rejected
  \<^verbatim>\<open>await\<close> would leave the loop as a throw.
\<close>

fun verifyEach ::
  "'a platform \<Rightarrow> (nat \<Rightarrow> timestamp) \<Rightarrow> (string \<times> fieldObject) list \<Rightarrow> byte list \<Rightarrow> nat \<Rightarrow>
     sigObj list \<Rightarrow> jsError + signatureEntry list" where
  "verifyEach lib clock sigFields pdfBytes i [] = Inr []"
| "verifyEach lib clock sigFields pdfBytes i (sigObj # rest) =
     (let name = (if i < length sigFields then fst (sigFields ! i)
                  else ''Signature '' @ decimal (i + 1))
      in (case verifyPDFSignature lib (clock i) sigObj pdfBytes of
            Rejected e \<Rightarrow> Inl e
          | Resolved verResult \<Rightarrow>
              (case verifyEach lib clock sigFields pdfBytes (Suc i) rest of
                 Inl e \<Rightarrow> Inl e
               | Inr sigs \<Rightarrow> Inr (entry name verResult # sigs))))"

text \<open>
  \<^verbatim>\<open>verifyPDFSignatures(file)\<close>. \<open>file\<close> is the outcome of reading the file
  (\<^verbatim>\<open>reader.onerror = reject\<close>); every throw inside \<^verbatim>\<open>onload\<close> rejects the promise.
  The text is decoded, and the signed bytes are sliced, from the array \<^verbatim>\<open>pdfBytes\<close> as
  it is after the document was loaded from it. (A slice of a detached array would
  throw; there is none to take, since the text of a detached array has no match.)
\<close>

definition verifyPDFSignatures ::
  "'a platform \<Rightarrow> pdfjs \<Rightarrow> (nat \<Rightarrow> timestamp) \<Rightarrow> jsError + byte list \<Rightarrow> verificationOutput promise" where
  "verifyPDFSignatures lib pdf clock file =
     (case file of
        Inl e \<Rightarrow> Rejected e
      | Inr pdfBytes \<Rightarrow>
         (case getDocument pdf pdfBytes of
            Inl e \<Rightarrow> Rejected e
          | Inr pdfDoc \<Rightarrow>
             (case getFieldObjects pdfDoc of
                Inl e \<Rightarrow> Rejected e
              | Inr acroForm \<Rightarrow>
                 (let sigFields = signatureFields acroForm
                  in if length sigFields = 0
                     then Resolved
                            \<lparr>numPages = pdfDocument.numPages pdfDoc, signatures = [],
                             hasSignatures = False,
                             message = Some ''No digital signatures found in this document.''\<rparr>
                     else
                      (let held = retained pdf pdfBytes;
                           pdfText = decodeLatin1 held;
                           sigDataList = scanByteRange 0 pdfText;
                           allContents = scanContents 0 pdfText;
                           allReasons = scanParenthesized ''/Reason'' 0 pdfText;
                           allLocations = scanParenthesized ''/Location'' 0 pdfText
                       in (case verifyEach lib clock sigFields held 0
                                  (sigObjects sigDataList allContents allReasons allLocations) of
                             Inl e \<Rightarrow> Rejected e
                           | Inr sigs \<Rightarrow>
                               Resolved
                                 \<lparr>numPages = pdfDocument.numPages pdfDoc, signatures = sigs,
                                  hasSignatures = (length sigs > 0), message = None\<rparr>))))))"

subsection \<open>Document-level status (App.jsx)\<close>

text \<open>
  The reducer of \<^verbatim>\<open>PDFVerifierTab\<close>, and \<^verbatim>\<open>overallStatus\<close>: \<^verbatim>\<open>null\<close> while there is no
  result, \<^verbatim>\<open>none\<close> for a document without signatures, else the reduction from
  \<^verbatim>\<open>valid\<close>.
\<close>

definition reducer :: "string \<Rightarrow> signatureEntry \<Rightarrow> string" where
  "reducer acc sig =
     (let s = getOverallStatus sig
      in if s = ''invalid'' \<or> s = ''tampered'' then ''invalid''
         else if acc = ''valid'' \<and> (s = ''expired'' \<or> s = ''self-signed'' \<or> s = ''untrusted'') then s
         else acc)"

definition overallStatus :: "verificationOutput option \<Rightarrow> string option" where
  "overallStatus result =
     (case result of
        None \<Rightarrow> None
      | Some r \<Rightarrow>
          Some (if hasSignatures r then foldl reducer ''valid'' (signatures r) else ''none''))"

subsection \<open>Certificate inspector\<close>

text \<open>\<^verbatim>\<open>extractDN(entity)\<close>: an object keyed by short name; a later attribute overwrites.\<close>

definition extractDN :: "distinguishedName \<Rightarrow> (string \<rightharpoonup> string)" where
  "extractDN entity =
     foldl (\<lambda>fields attr. fields(shortName attr \<mapsto> attrValue attr)) Map.empty (attributes entity)"

text \<open>\<^verbatim>\<open>n.bitLength()\<close> of a non-negative big integer.\<close>

function bitLength :: "nat \<Rightarrow> nat" where
  "bitLength k = (if k = 0 then 0 else Suc (bitLength (k div 2)))"
  by pat_completeness auto
termination
  by (relation "measure id") auto

declare bitLength.simps [simp del]

text \<open>
  The decoding block of \<^verbatim>\<open>verifyCertificate\<close>. \<^verbatim>\<open>e.target.result\<close> is the text that
  \<^verbatim>\<open>reader.readAsText(file)\<close> produced. First \<^verbatim>\<open>certificateFromPem\<close> on the text; when
  that throws, \<^verbatim>\<open>new Uint8Array(e.target.result)\<close> on the same text, which allocates
  \<^verbatim>\<open>ToIndex(text)\<close> zero bytes, each mapped to a character and joined, then \<^verbatim>\<open>fromDer\<close>
  and \<^verbatim>\<open>certificateFromAsn1\<close> on that string.
\<close>

definition decodeCertificate :: "'a platform \<Rightarrow> string \<Rightarrow> jsError + certificate" where
  "decodeCertificate lib certPem =
     (case certificateFromPem lib certPem of
        Inr cert \<Rightarrow> Inr cert
      | Inl _ \<Rightarrow>
          (case toIndex lib certPem of
             Inl e \<Rightarrow> Inl e
           | Inr k \<Rightarrow>
               (let bytes = replicate k (CHR 0x00);
                    derStr = concat (map (\<lambda>b. [b]) bytes)
                in (case fromDer lib derStr of
                      Inl e \<Rightarrow> Inl e
                    | Inr asn1 \<Rightarrow> certificateFromAsn1 lib asn1))))"

text \<open>
  The \<^verbatim>\<open>result\<close> object of \<^verbatim>\<open>verifyCertificate\<close>, built inside the \<^verbatim>\<open>try\<close>. Of its
  properties only the fingerprint can throw (\<^verbatim>\<open>cert.toAsn1()\<close> and the encoder).
\<close>

definition inspect :: "'a platform \<Rightarrow> timestamp \<Rightarrow> certificate \<Rightarrow> jsError + certificateResult" where
  "inspect lib now cert =
     (case encodeCertificate lib ''cert'' cert of
        Inl e \<Rightarrow> Inl e
      | Inr der \<Rightarrow>
          Inr \<lparr>certificateResult.subject = extractDN (certificate.subject cert),
               certificateResult.issuer = extractDN (certificate.issuer cert),
               certificateResult.serialNumber = certificate.serialNumber cert,
               certificateResult.validFrom = notBefore (validity cert),
               certificateResult.validTo = notAfter (validity cert),
               certificateResult.isExpired = (now > notAfter (validity cert)),
               certificateResult.isSelfSigned =
                 (hash (certificate.issuer cert) = hash (certificate.subject cert)),
               certificateResult.fingerprint = sha256Hex lib der,
               publicKeyAlgorithm = (if modulus (publicKey cert) \<noteq> None then ''RSA'' else ''EC''),
               keySize = map_option bitLength (modulus (publicKey cert)),
               certificateResult.extensions =
                 map (\<lambda>e. (extName e, case extValue e of StringValue s \<Rightarrow> s | StructuredValue j \<Rightarrow> j))
                   (certificate.extensions cert)\<rparr>)"

text \<open>
  \<^verbatim>\<open>verifyCertificate(file)\<close>. \<open>file\<close> is the outcome of reading the file as text;
  \<open>now\<close> the \<^verbatim>\<open>new Date()\<close> after decoding. Every throw inside the \<^verbatim>\<open>try\<close>, of the
  decoding or of the fingerprint, rejects the promise.
\<close>

definition verifyCertificate ::
  "'a platform \<Rightarrow> timestamp \<Rightarrow> jsError + string \<Rightarrow> certificateResult promise" where
  "verifyCertificate lib now file =
     (case file of
        Inl e \<Rightarrow> Rejected e
      | Inr certPem \<Rightarrow>
          (case (case decodeCertificate lib certPem of
                   Inl err \<Rightarrow> Inl err
                 | Inr cert \<Rightarrow> inspect lib now cert) of
             Inl err \<Rightarrow> Rejected (Error (''Failed to parse certificate: '' @ jsError.message err))
           | Inr result \<Rightarrow> Resolved result))"

subsection \<open>Severity of a status\<close>

text \<open>
  The order of the status labels that the document-level status is measured against:
  \<^verbatim>\<open>invalid\<close> and \<^verbatim>\<open>tampered\<close> are the most severe, \<^verbatim>\<open>expired\<close>, \<^verbatim>\<open>self-signed\<close> and
  \<^verbatim>\<open>untrusted\<close> come next, \<^verbatim>\<open>valid\<close> is the least. This is the specification's order,
  not code of the application.
\<close>

definition severity :: "string \<Rightarrow> nat" where
  "severity s =
     (if s = ''invalid'' \<or> s = ''tampered'' then 2
      else if s = ''expired'' \<or> s = ''self-signed'' \<or> s = ''untrusted'' then 1
      else 0)"

text \<open>The values the reducer's accumulator takes.\<close>

definition accumulators :: "string set" where
  "accumulators = {''valid'', ''invalid'', ''expired'', ''self-signed'', ''untrusted''}"

subsection \<open>Example inputs\<close>

text \<open>
  A certificate and three envelopes. The first envelope has a signer with a digest object
  and a signing time; the second a signing time that does not decode; the third lists
  no signer.
\<close>

definition exampleCertificate :: certificate where
  "exampleCertificate =
     \<lparr>certificate.subject =
        \<lparr>attributes = [\<lparr>shortName = ''CN'', attrValue = ''Alice''\<rparr>], hash = ''5a''\<rparr>,
      certificate.issuer =
        \<lparr>attributes = [\<lparr>shortName = ''O'', attrValue = ''Example CA''\<rparr>], hash = ''c4''\<rparr>,
      certificate.serialNumber = ''01'',
      validity = \<lparr>notBefore = 0, notAfter = 2000000000000\<rparr>,
      publicKey = \<lparr>modulus = Some 3233\<rparr>,
      certificate.extensions =
        [\<lparr>extName = ''keyUsage'', extValue = StringValue ''digitalSignature''\<rparr>]\<rparr>"

definition exampleEnvelope :: pkcs7 where
  "exampleEnvelope =
     \<lparr>signers =
        [\<lparr>md = Some [],
          authenticatedAttributes =
            Some [\<lparr>attrType = ''1.2.840.113549.1.9.5'', utcTime = Inr 1690000000000\<rparr>]\<rparr>],
      pkcs7.certificates = [exampleCertificate]\<rparr>"

definition envelopeBadTime :: pkcs7 where
  "envelopeBadTime =
     \<lparr>signers =
        [\<lparr>md = None,
          authenticatedAttributes =
            Some [\<lparr>attrType = ''1.2.840.113549.1.9.5'', utcTime = Inl (Error ''Invalid time'')\<rparr>]\<rparr>],
      pkcs7.certificates = [exampleCertificate]\<rparr>"

definition envelopeNoSigner :: pkcs7 where
  "envelopeNoSigner = \<lparr>signers = [], pkcs7.certificates = [exampleCertificate]\<rparr>"

text \<open>
  Two stand-ins for the libraries. On \<open>examplePlatform\<close> every call that the engine
  makes after decoding succeeds: certificates encode, the envelope verifies itself. The
  contents \<^verbatim>\<open>3082\<close>, \<^verbatim>\<open>3083\<close> and \<^verbatim>\<open>3084\<close> decode to the three envelopes above, any other
  contents fail to decode; no text decodes as PEM, and none reads as a number.

  \<open>forgePlatform\<close> differs where node-forge does: a decoded certificate has no method
  \<^verbatim>\<open>toAsn1\<close>, so encoding one throws a \<^verbatim>\<open>TypeError\<close>; a decoded envelope lists no
  signer; and \<^verbatim>\<open>p7.verify()\<close> is not implemented.
\<close>

definition examplePlatform :: "string platform" where
  "examplePlatform =
     \<lparr>hexToBytes = (\<lambda>h. Inr (map char_of h)),
      fromDer = (\<lambda>d. if d = ''3082'' \<or> d = ''3083'' \<or> d = ''3084'' then Inr d
                     else Inl (Error ''Too few bytes to parse DER.'')),
      messageFromAsn1 = (\<lambda>a. if a = ''3083'' then Inr envelopeBadTime
                             else if a = ''3084'' then Inr envelopeNoSigner
                             else Inr exampleEnvelope),
      certificateFromPem = (\<lambda>t. Inl (Error ''Invalid PEM formatted message.'')),
      certificateFromAsn1 = (\<lambda>a. Inr exampleCertificate),
      encodeCertificate = (\<lambda>v c. Inr ''0...''),
      sha256Hex = (\<lambda>b. ''9f86d081''),
      verify = (\<lambda>p. Inr True),
      oidSigningTime = ''1.2.840.113549.1.9.5'',
      mdOfUndefined = Error ''Cannot read properties of undefined (reading 'md')'',
      toIndex = (\<lambda>s. Inr 0),
      toLocaleDateString = (\<lambda>t. ''5/18/2033'')\<rparr>"

definition forgePlatform :: "string platform" where
  "forgePlatform =
     examplePlatform
       \<lparr>messageFromAsn1 := (\<lambda>a. Inr envelopeNoSigner),
        encodeCertificate := (\<lambda>v c. Inl (Error (v @ ''.toAsn1 is not a function''))),
        verify := (\<lambda>p. Inl (Error ''PKCS#7 signature verification not yet implemented.''))\<rparr>"

text \<open>
  A document with one page and one signature-type form field, loaded as pdf.js loads it
  (the caller's array is taken); the same by a loader that leaves the array alone; and a
  document whose form has no field.
\<close>

definition examplePdfjs :: pdfjs where
  "examplePdfjs =
     \<lparr>getDocument = (\<lambda>bytes.
        Inr \<lparr>pdfDocument.numPages = 1,
             getFieldObjects = Inr (Some [(''Signature1'', [\<lparr>fieldType = ''signature''\<rparr>])])\<rparr>),
      takesOwnership = True\<rparr>"

definition copyingPdfjs :: pdfjs where
  "copyingPdfjs = examplePdfjs\<lparr>takesOwnership := False\<rparr>"

definition formlessPdfjs :: pdfjs where
  "formlessPdfjs =
     examplePdfjs
       \<lparr>getDocument := (\<lambda>bytes. Inr \<lparr>pdfDocument.numPages = 1, getFieldObjects = Inr None\<rparr>)\<rparr>"

definition exampleClock :: "nat \<Rightarrow> timestamp" where
  "exampleClock i = 1700000000000"

text \<open>
  A descriptor as the document scan builds it, and what its verification returns: on
  \<open>examplePlatform\<close> before and after the certificate's expiry, and on
  \<open>forgePlatform\<close> likewise.
\<close>

definition exampleSigObj :: sigObj where
  "exampleSigObj =
     \<lparr>sigObj.byteRange = Some (NestedRange [(0, 10), (20, 5)]),
      sigObj.contents = Some (literal ''3082''),
      sigObj.reason = Some (literal ''Approved''), sigObj.location = None\<rparr>"

definition exampleResult :: VerificationResult where
  "exampleResult =
     \<lparr>signerName = ''Alice'', signerEmail = None, signingTime = Some 1690000000000,
      reason = Some (literal ''Approved''), location = None,
      certificates =
        [\<lparr>certificateEntry.subject = ''Alice'', certificateEntry.issuer = ''O=Example CA'',
          certificateEntry.validFrom = 0, certificateEntry.validTo = 2000000000000,
          certificateEntry.serialNumber = ''01'', certificateEntry.isExpired = False,
          certificateEntry.fingerprint = ''9f86d081''\<rparr>],
      integrityValid = True, certTrustValid = True, isExpired = False, isSelfSigned = False,
      errors = [], warnings = []\<rparr>"

definition exampleExpiredResult :: VerificationResult where
  "exampleExpiredResult =
     \<lparr>signerName = ''Alice'', signerEmail = None, signingTime = Some 1690000000000,
      reason = Some (literal ''Approved''), location = None,
      certificates =
        [\<lparr>certificateEntry.subject = ''Alice'', certificateEntry.issuer = ''O=Example CA'',
          certificateEntry.validFrom = 0, certificateEntry.validTo = 2000000000000,
          certificateEntry.serialNumber = ''01'', certificateEntry.isExpired = True,
          certificateEntry.fingerprint = ''9f86d081''\<rparr>],
      integrityValid = True, certTrustValid = False, isExpired = True, isSelfSigned = False,
      errors = [], warnings = [''Certificate expired on 5/18/2033'']\<rparr>"

definition forgeResult :: VerificationResult where
  "forgeResult =
     \<lparr>signerName = ''Alice'', signerEmail = None, signingTime = None,
      reason = None, location = None, certificates = [],
      integrityValid = False, certTrustValid = False, isExpired = False, isSelfSigned = False,
      errors = [''Unexpected error: c.toAsn1 is not a function''], warnings = []\<rparr>"

definition forgeExpiredResult :: VerificationResult where
  "forgeExpiredResult =
     \<lparr>signerName = ''Alice'', signerEmail = None, signingTime = None,
      reason = None, location = None, certificates = [],
      integrityValid = False, certTrustValid = False, isExpired = True, isSelfSigned = False,
      errors = [''Unexpected error: c.toAsn1 is not a function''],
      warnings = [''Certificate expired on 5/18/2033'']\<rparr>"

text \<open>
  Two documents: one without a byte-range marker, and one with two signature
  dictionaries, the first with a byte range beyond the end of the document, the second
  without an envelope. With them, what their verification resolves with, and the output
  of the early return.
\<close>

definition unsignedDocument :: "byte list" where
  "unsignedDocument = ''%PDF-1.7 /Contents <3082>''"

definition twoFieldDocument :: "byte list" where
  "twoFieldDocument =
     ''%PDF-1.4'' @ [CHR 0x0A] @
     ''1 0 obj << /Type /Catalog /Pages 2 0 R >> endobj'' @ [CHR 0x0A] @
     ''2 0 obj << /Type /Pages /Kids [3 0 R] /Count 1 >> endobj'' @ [CHR 0x0A] @
     ''3 0 obj << /Type /Page /Parent 2 0 R /MediaBox [0 0 200 200] >> endobj'' @ [CHR 0x0A] @
     ''4 0 obj << /Type /Sig /ByteRange [0 9999 20000 500] /Contents <3082> /Reason (Approved) >> endobj''
       @ [CHR 0x0A] @
     ''5 0 obj << /Type /Sig /ByteRange [0 10 20 5] >> endobj'' @ [CHR 0x0A] @
     ''trailer << /Root 1 0 R /Size 6 >>'' @ [CHR 0x0A] @
     ''%%EOF'' @ [CHR 0x0A]"

definition missingEnvelopeResult :: VerificationResult where
  "missingEnvelopeResult =
     initialResult\<lparr>errors := [''Missing ByteRange or Contents in signature dictionary.'']\<rparr>"

definition exampleOutput :: verificationOutput where
  "exampleOutput =
     \<lparr>numPages = 1,
      signatures = [entry ''Signature1'' exampleResult, entry ''Signature 2'' missingEnvelopeResult],
      hasSignatures = True, message = None\<rparr>"

definition unsignedOutput :: verificationOutput where
  "unsignedOutput = \<lparr>numPages = 1, signatures = [], hasSignatures = False, message = None\<rparr>"


text \<open>
  Two descriptors with a flat byte range over the two-field document (379 bytes): one
  whose spans end beyond the document, one with the same spans cut at the document's end.
\<close>

definition flatOutOfRange :: sigObj where
  "flatOutOfRange = exampleSigObj\<lparr>sigObj.byteRange := Some (FlatRange [0, 9999, 20000, 500])\<rparr>"

definition flatWholeDocument :: sigObj where
  "flatWholeDocument = exampleSigObj\<lparr>sigObj.byteRange := Some (FlatRange [0, 379, 379, 0])\<rparr>"

text \<open>
  A result that classifies as \<^verbatim>\<open>tampered\<close>, and an output whose only signature it is.
\<close>

definition tamperedResult :: VerificationResult where
  "tamperedResult = exampleResult\<lparr>integrityValid := False\<rparr>"

definition tamperedOutput :: verificationOutput where
  "tamperedOutput =
     \<lparr>numPages = 1, signatures = [entry ''Signature1'' tamperedResult],
      hasSignatures = True, message = None\<rparr>"

text \<open>
  A certificate file in the binary encoding (its first bytes), and a library that
  decodes exactly these bytes as DER.
\<close>

definition exampleDerFile :: string where
  "exampleDerFile = [CHR 0x30, CHR 0x82, CHR 0x03, CHR 0x55]"

definition derPlatform :: "string platform" where
  "derPlatform =
     examplePlatform\<lparr>fromDer := (\<lambda>d. if d = exampleDerFile then Inr d
                                        else Inl (Error ''Too few bytes to parse DER.''))\<rparr>"

section \<open>Auxiliary facts\<close>

subsection \<open>Signature entries and the verification loop\<close>

lemma entry_truncate: "VerificationResult.truncate (entry n r) = r"
  by (simp add: entry_def VerificationResult.defs signatureEntry.defs)

lemma entry_fieldName: "fieldName (entry n r) = n"
  by (simp add: entry_def VerificationResult.defs signatureEntry.defs)

lemma entry_errors: "errors (entry n r) = errors r"
  by (simp add: entry_def VerificationResult.defs signatureEntry.defs)

lemma entry_status: "getOverallStatus (entry n r) = getOverallStatus r"
  by (simp add: getOverallStatus_def entry_def VerificationResult.defs signatureEntry.defs)


lemma verifyPDFSignature_resolves:
  "\<exists>r. verifyPDFSignature lib now so b = Resolved r"
  by (simp add: verifyPDFSignature_def)

lemma verifyEach_resolves:
  "\<exists>sigs. verifyEach lib clock sf b i objs = Inr sigs \<and> length sigs = length objs \<and>
     (\<forall>k < length objs.
        verifyPDFSignature lib (clock (i + k)) (objs ! k) b
          = Resolved (VerificationResult.truncate (sigs ! k)) \<and>
        fieldName (sigs ! k) =
          (if i + k < length sf then fst (sf ! (i + k)) else ''Signature '' @ decimal (i + k + 1)))"
proof (induction objs arbitrary: i)
  case Nil
  then show ?case by simp
next
  case (Cons so rest)
  obtain r where r: "verifyPDFSignature lib (clock i) so b = Resolved r"
    using verifyPDFSignature_resolves by blast
  from Cons.IH [of "Suc i"] obtain sigs where
    s: "verifyEach lib clock sf b (Suc i) rest = Inr sigs" "length sigs = length rest"
    and n: "\<forall>k < length rest.
        verifyPDFSignature lib (clock (Suc i + k)) (rest ! k) b
          = Resolved (VerificationResult.truncate (sigs ! k)) \<and>
        fieldName (sigs ! k) =
          (if Suc i + k < length sf then fst (sf ! (Suc i + k))
           else ''Signature '' @ decimal (Suc i + k + 1))"
    by blast
  show ?case
  proof (intro exI conjI allI impI)
    show "verifyEach lib clock sf b i (so # rest) =
            Inr (entry (if i < length sf then fst (sf ! i) else ''Signature '' @ decimal (i + 1)) r # sigs)"
      using r s by simp
    show "length (entry (if i < length sf then fst (sf ! i) else ''Signature '' @ decimal (i + 1)) r # sigs)
            = length (so # rest)"
      using s by simp
  next
    fix k assume "k < length (so # rest)"
    then show "verifyPDFSignature lib (clock (i + k)) ((so # rest) ! k) b =
         Resolved (VerificationResult.truncate
           ((entry (if i < length sf then fst (sf ! i) else ''Signature '' @ decimal (i + 1)) r # sigs) ! k))"
      using r n by (cases k) (simp_all add: entry_truncate)
  next
    fix k assume "k < length (so # rest)"
    then show "fieldName ((entry (if i < length sf then fst (sf ! i) else ''Signature '' @ decimal (i + 1)) r # sigs) ! k) =
         (if i + k < length sf then fst (sf ! (i + k)) else ''Signature '' @ decimal (i + k + 1))"
      using n by (cases k) (simp_all add: entry_fieldName)
  qed
qed

subsection \<open>The reducer\<close>

lemma getOverallStatus_labels:
  "getOverallStatus sig \<in> {''invalid'', ''expired'', ''self-signed'', ''tampered'', ''untrusted'', ''valid''}"
  by (simp add: getOverallStatus_def)

lemma severity_labels [simp]:
  "severity ''invalid'' = 2" "severity ''tampered'' = 2" "severity ''expired'' = 1"
  "severity ''self-signed'' = 1" "severity ''untrusted'' = 1" "severity ''valid'' = 0"
  by (simp_all add: severity_def)

lemma reducer_cases:
  "s = ''invalid'' \<or> s = ''tampered'' \<Longrightarrow> getOverallStatus sig = s \<Longrightarrow> reducer acc sig = ''invalid''"
  "s = ''expired'' \<or> s = ''self-signed'' \<or> s = ''untrusted'' \<Longrightarrow> getOverallStatus sig = s \<Longrightarrow>
     reducer acc sig = (if acc = ''valid'' then s else acc)"
  "getOverallStatus sig = ''valid'' \<Longrightarrow> reducer acc sig = acc"
    apply (simp add: reducer_def Let_def)
   apply (erule disjE; (erule disjE)?; simp add: reducer_def Let_def)
  apply (simp add: reducer_def Let_def)
  done

lemma reducer_step:
  assumes "acc \<in> accumulators"
  shows "reducer acc sig \<in> accumulators"
    and "severity (reducer acc sig) = max (severity acc) (severity (getOverallStatus sig))"
    and "severity (getOverallStatus sig) = 2 \<Longrightarrow> reducer acc sig = ''invalid''"
    and "acc = ''invalid'' \<Longrightarrow> reducer acc sig = ''invalid''"
    and "reducer acc sig = acc \<or> reducer acc sig = ''invalid'' \<or> (acc = ''valid'' \<and> reducer acc sig = getOverallStatus sig)"
proof -
  consider (bad) "getOverallStatus sig = ''invalid'' \<or> getOverallStatus sig = ''tampered''"
    | (warn) "getOverallStatus sig = ''expired'' \<or> getOverallStatus sig = ''self-signed'' \<or>
              getOverallStatus sig = ''untrusted''"
    | (good) "getOverallStatus sig = ''valid''"
    using getOverallStatus_labels [of sig] by blast
  then have
    "reducer acc sig \<in> accumulators \<and>
     severity (reducer acc sig) = max (severity acc) (severity (getOverallStatus sig)) \<and>
     (severity (getOverallStatus sig) = 2 \<longrightarrow> reducer acc sig = ''invalid'') \<and>
     (acc = ''invalid'' \<longrightarrow> reducer acc sig = ''invalid'') \<and>
     (reducer acc sig = acc \<or> reducer acc sig = ''invalid'' \<or> (acc = ''valid'' \<and> reducer acc sig = getOverallStatus sig))"
  proof cases
    case bad
    then have r: "reducer acc sig = ''invalid''" using reducer_cases(1) by blast
    have "severity (getOverallStatus sig) = 2" using bad by auto
    moreover have "severity acc \<le> 2" by (simp add: severity_def)
    ultimately show ?thesis unfolding r by (simp add: accumulators_def)
  next
    case warn
    then have r: "reducer acc sig = (if acc = ''valid'' then getOverallStatus sig else acc)"
      using reducer_cases(2) by blast
    have s: "severity (getOverallStatus sig) = 1" using warn by auto
    have m: "getOverallStatus sig \<in> accumulators" using warn by (auto simp: accumulators_def)
    have "acc = ''valid'' \<or> 1 \<le> severity acc"
      using assms by (auto simp: accumulators_def)
    then show ?thesis unfolding r using s m assms by (auto simp: max_def)
  next
    case good
    then have r: "reducer acc sig = acc" using reducer_cases(3) by blast
    show ?thesis unfolding r using good assms by simp
  qed
  then show "reducer acc sig \<in> accumulators"
    and "severity (reducer acc sig) = max (severity acc) (severity (getOverallStatus sig))"
    and "severity (getOverallStatus sig) = 2 \<Longrightarrow> reducer acc sig = ''invalid''"
    and "acc = ''invalid'' \<Longrightarrow> reducer acc sig = ''invalid''"
    and "reducer acc sig = acc \<or> reducer acc sig = ''invalid'' \<or> (acc = ''valid'' \<and> reducer acc sig = getOverallStatus sig)"
    by blast+
qed

lemma foldl_reducer:
  assumes "acc \<in> accumulators"
  shows "foldl reducer acc sigs \<in> accumulators \<and>
         severity (foldl reducer acc sigs)
           = Max (set (severity acc # map (\<lambda>sig. severity (getOverallStatus sig)) sigs))"
  using assms
proof (induction sigs arbitrary: acc)
  case Nil
  then show ?case by simp
next
  case (Cons sig sigs)
  have a: "reducer acc sig \<in> accumulators" using Cons.prems by (rule reducer_step(1))
  have "Max (set (max (severity acc) (severity (getOverallStatus sig))
               # map (\<lambda>sig. severity (getOverallStatus sig)) sigs))
        = Max (set (severity acc # map (\<lambda>sig. severity (getOverallStatus sig)) (sig # sigs)))"
    by (cases "sigs = []") (simp_all add: max.assoc)
  then show ?case
    using Cons.IH [OF a] reducer_step(2) [OF Cons.prems, of sig] by simp
qed

lemma foldl_reducer_invalid:
  "acc \<in> accumulators \<Longrightarrow>
   acc = ''invalid'' \<or> (\<exists>sig \<in> set sigs. getOverallStatus sig = ''invalid'' \<or> getOverallStatus sig = ''tampered'') \<Longrightarrow>
   foldl reducer acc sigs = ''invalid''"
proof (induction sigs arbitrary: acc)
  case Nil
  then show ?case by simp
next
  case (Cons sig sigs)
  have a: "reducer acc sig \<in> accumulators" using Cons.prems(1) by (rule reducer_step(1))
  show ?case
  proof (cases "acc = ''invalid'' \<or> getOverallStatus sig = ''invalid'' \<or> getOverallStatus sig = ''tampered''")
    case True
    then have "reducer acc sig = ''invalid''"
      using reducer_step(3,4) [OF Cons.prems(1), of sig] by (auto simp: severity_def)
    then show ?thesis using Cons.IH [OF a] by simp
  next
    case False
    then show ?thesis using Cons.IH [OF a] Cons.prems(2) by auto
  qed
qed

lemma foldl_reducer_member:
  "acc \<in> accumulators \<Longrightarrow>
   foldl reducer acc sigs = acc \<or> foldl reducer acc sigs = ''invalid'' \<or>
   (\<exists>sig \<in> set sigs. foldl reducer acc sigs = getOverallStatus sig)"
proof (induction sigs arbitrary: acc)
  case Nil
  then show ?case by simp
next
  case (Cons sig sigs)
  have a: "reducer acc sig \<in> accumulators" using Cons.prems(1) by (rule reducer_step(1))
  from Cons.IH [OF a] reducer_step(5) [OF Cons.prems, of sig]
  show ?case by auto
qed

text \<open>
  Without an \<^verbatim>\<open>invalid\<close> or \<^verbatim>\<open>tampered\<close> signature the reduction keeps the first status
  that is not \<^verbatim>\<open>valid\<close>.
\<close>

lemma foldl_reducer_first:
  assumes "\<forall>sig \<in> set sigs. getOverallStatus sig \<noteq> ''invalid'' \<and> getOverallStatus sig \<noteq> ''tampered''"
  shows "foldl reducer acc sigs =
           (if acc = ''valid''
            then (case filter (\<lambda>s. s \<noteq> ''valid'') (map getOverallStatus sigs) of
                    [] \<Rightarrow> ''valid''
                  | s # _ \<Rightarrow> s)
            else acc)"
  using assms
proof (induction sigs arbitrary: acc)
  case Nil
  then show ?case by simp
next
  case (Cons sig sigs)
  have ih: "foldl reducer (reducer acc sig) sigs =
           (if reducer acc sig = ''valid''
            then (case filter (\<lambda>s. s \<noteq> ''valid'') (map getOverallStatus sigs) of
                    [] \<Rightarrow> ''valid''
                  | s # _ \<Rightarrow> s)
            else reducer acc sig)"
    using Cons.IH [of "reducer acc sig"] Cons.prems by simp
  consider (warn) "getOverallStatus sig = ''expired'' \<or> getOverallStatus sig = ''self-signed'' \<or>
              getOverallStatus sig = ''untrusted''"
    | (good) "getOverallStatus sig = ''valid''"
    using getOverallStatus_labels [of sig] Cons.prems by auto
  then show ?case
  proof cases
    case warn
    then have r: "reducer a sig = (if a = ''valid'' then getOverallStatus sig else a)" for a
      using reducer_cases(2) by blast
    have n: "getOverallStatus sig \<noteq> ''valid''" using warn by auto
    show ?thesis using ih n by (simp add: r)
  next
    case good
    then have r: "reducer a sig = a" for a using reducer_cases(3) by blast
    show ?thesis using ih good by (simp add: r)
  qed
qed

subsection \<open>Fields of a verification result\<close>

lemma integrityCheck_fields:
  "isExpired (integrityCheck lib p7 si sb r) = isExpired r"
  "isSelfSigned (integrityCheck lib p7 si sb r) = isSelfSigned r"
  "certificates (integrityCheck lib p7 si sb r) = certificates r"
  "warnings (integrityCheck lib p7 si sb r) = warnings r"
  by (simp_all add: integrityCheck_def split: sum.splits option.splits)

lemma integrityCheck_errors:
  "errors (integrityCheck lib p7 si sb r) =
     (case (case si of None \<Rightarrow> Inl (mdOfUndefined lib) | Some s \<Rightarrow> verify lib (feedSigner p7 s sb)) of
        Inr v \<Rightarrow> errors r
      | Inl e \<Rightarrow> errors r @ [''Integrity verification failed: '' @ jsError.message e])"
  "integrityValid (integrityCheck lib p7 si sb r) =
     (case (case si of None \<Rightarrow> Inl (mdOfUndefined lib) | Some s \<Rightarrow> verify lib (feedSigner p7 s sb)) of
        Inr v \<Rightarrow> v
      | Inl e \<Rightarrow> False)"
  by (simp_all add: integrityCheck_def split: sum.splits option.splits)

text \<open>
  The two flags are assigned before the chain is listed, so they hold however the branch
  is left.
\<close>

lemma certificateBranch_flags:
  "isExpired (snd (certificateBranch lib now p7 si cert sb r)) = (now > notAfter (validity cert))"
  "isSelfSigned (snd (certificateBranch lib now p7 si cert sb r))
     = (hash (certificate.issuer cert) = hash (certificate.subject cert))"
  by (simp_all add: certificateBranch_def Let_def integrityCheck_fields split: sum.splits)

lemma certificateBranch_thrown:
  assumes "chainListing lib now (pkcs7.certificates p7) = Inl e"
  shows "fst (certificateBranch lib now p7 si cert sb r) = Some e"
    and "certTrustValid (snd (certificateBranch lib now p7 si cert sb r)) = certTrustValid r"
    and "integrityValid (snd (certificateBranch lib now p7 si cert sb r)) = integrityValid r"
    and "certificates (snd (certificateBranch lib now p7 si cert sb r)) = certificates r"
    and "errors (snd (certificateBranch lib now p7 si cert sb r)) = errors r"
  using assms by (simp_all add: certificateBranch_def Let_def)

lemma certificateBranch_listed:
  assumes "chainListing lib now (pkcs7.certificates p7) = Inr entries"
  shows "fst (certificateBranch lib now p7 si cert sb r) = None"
    and "certTrustValid (snd (certificateBranch lib now p7 si cert sb r))
           = (\<not> isSelfSigned (snd (certificateBranch lib now p7 si cert sb r)) \<and>
              \<not> isExpired (snd (certificateBranch lib now p7 si cert sb r)))"
    and "certificates (snd (certificateBranch lib now p7 si cert sb r)) = entries"
    and "errors (snd (certificateBranch lib now p7 si cert sb r)) =
           (case (case si of None \<Rightarrow> Inl (mdOfUndefined lib) | Some s \<Rightarrow> verify lib (feedSigner p7 s sb)) of
              Inr v \<Rightarrow> errors r
            | Inl e \<Rightarrow> errors r @ [''Integrity verification failed: '' @ jsError.message e])"
    and "integrityValid (snd (certificateBranch lib now p7 si cert sb r)) =
           (case (case si of None \<Rightarrow> Inl (mdOfUndefined lib) | Some s \<Rightarrow> verify lib (feedSigner p7 s sb)) of
              Inr v \<Rightarrow> v
            | Inl e \<Rightarrow> False)"
  using assms
  by (simp_all add: certificateBranch_def Let_def integrityCheck_fields integrityCheck_errors
      split: sum.splits option.splits)

lemma catchUnexpected_fields:
  "isExpired (catchUnexpected x) = isExpired (snd x)"
  "isSelfSigned (catchUnexpected x) = isSelfSigned (snd x)"
  "certTrustValid (catchUnexpected x) = certTrustValid (snd x)"
  "integrityValid (catchUnexpected x) = integrityValid (snd x)"
  "certificates (catchUnexpected x) = certificates (snd x)"
  by (cases x; cases "fst x"; simp)+

lemma catchUnexpected_errors:
  "errors (catchUnexpected x) =
     errors (snd x) @ (case fst x of None \<Rightarrow> [] | Some e \<Rightarrow> [''Unexpected error: '' @ jsError.message e])"
  by (cases x; cases "fst x"; simp)

lemma afterCertificate_fields:
  "isExpired (snd (afterCertificate lib so si r)) = isExpired r"
  "isSelfSigned (snd (afterCertificate lib so si r)) = isSelfSigned r"
  "certTrustValid (snd (afterCertificate lib so si r)) = certTrustValid r"
  "integrityValid (snd (afterCertificate lib so si r)) = integrityValid r"
  "certificates (snd (afterCertificate lib so si r)) = certificates r"
  "errors (snd (afterCertificate lib so si r)) = errors r"
  "fst (afterCertificate lib so si r) =
     (case extractSigningTime lib si of Inl e \<Rightarrow> Some e | Inr t \<Rightarrow> None)"
  by (simp_all add: afterCertificate_def Let_def split: sum.splits option.splits)

text \<open>
  The block after a decoded envelope, by the three ways through it: no certificate; a
  certificate and a chain listing that throws; a certificate and a chain that is listed.
\<close>

lemma afterParse_no_certificate:
  assumes "pkcs7.certificates p7 = []"
  shows "afterParse lib now so p7 sb r =
           afterCertificate lib so (case signers p7 of [] \<Rightarrow> None | s # _ \<Rightarrow> Some s)
             (r\<lparr>errors := errors r @ [''No certificates found in signature.'']\<rparr>)"
  using assms by (simp add: afterParse_def Let_def)

lemma afterParse_thrown:
  assumes "pkcs7.certificates p7 = cert # others"
    and "chainListing lib now (pkcs7.certificates p7) = Inl e"
  shows "afterParse lib now so p7 sb r =
           (Some e, snd (certificateBranch lib now p7
                           (case signers p7 of [] \<Rightarrow> None | s # _ \<Rightarrow> Some s) cert sb r))"
proof -
  let ?b = "certificateBranch lib now p7 (case signers p7 of [] \<Rightarrow> None | s # _ \<Rightarrow> Some s) cert sb r"
  have "fst ?b = Some e" using assms(2) by (rule certificateBranch_thrown(1))
  then obtain r' where b: "?b = (Some e, r')" by (cases ?b) simp
  show ?thesis
    by (simp add: afterParse_def Let_def assms(1) b)
qed

lemma afterParse_listed:
  assumes "pkcs7.certificates p7 = cert # others"
    and "chainListing lib now (pkcs7.certificates p7) = Inr entries"
  shows "afterParse lib now so p7 sb r =
           afterCertificate lib so (case signers p7 of [] \<Rightarrow> None | s # _ \<Rightarrow> Some s)
             (snd (certificateBranch lib now p7
                     (case signers p7 of [] \<Rightarrow> None | s # _ \<Rightarrow> Some s) cert sb r))"
proof -
  let ?b = "certificateBranch lib now p7 (case signers p7 of [] \<Rightarrow> None | s # _ \<Rightarrow> Some s) cert sb r"
  have "fst ?b = None" using assms(2) by (rule certificateBranch_listed(1))
  then obtain r' where b: "?b = (None, r')" by (cases ?b) simp
  show ?thesis
    by (simp add: afterParse_def Let_def assms(1) b)
qed

lemma afterParse_flags:
  assumes "pkcs7.certificates p7 = cert # others"
  shows "isExpired (snd (afterParse lib now so p7 sb r)) = (now > notAfter (validity cert))"
    and "isSelfSigned (snd (afterParse lib now so p7 sb r))
           = (hash (certificate.issuer cert) = hash (certificate.subject cert))"
proof -
  have "isExpired (snd (afterParse lib now so p7 sb r)) = (now > notAfter (validity cert)) \<and>
        isSelfSigned (snd (afterParse lib now so p7 sb r))
           = (hash (certificate.issuer cert) = hash (certificate.subject cert))"
  proof (cases "chainListing lib now (pkcs7.certificates p7)")
    case (Inl e)
    show ?thesis
      by (simp add: afterParse_thrown [OF assms Inl] certificateBranch_flags)
  next
    case (Inr entries)
    show ?thesis
      by (simp add: afterParse_listed [OF assms Inr] afterCertificate_fields certificateBranch_flags)
  qed
  then show "isExpired (snd (afterParse lib now so p7 sb r)) = (now > notAfter (validity cert))"
    and "isSelfSigned (snd (afterParse lib now so p7 sb r))
           = (hash (certificate.issuer cert) = hash (certificate.subject cert))"
    by simp_all
qed

text \<open>What a throw in the chain listing leaves of the result.\<close>

lemma afterParse_thrown_result:
  assumes "pkcs7.certificates p7 = cert # others"
    and "chainListing lib now (pkcs7.certificates p7) = Inl e"
  shows "errors (catchUnexpected (afterParse lib now so p7 sb r))
           = errors r @ [''Unexpected error: '' @ jsError.message e]"
    and "certTrustValid (catchUnexpected (afterParse lib now so p7 sb r)) = certTrustValid r"
    and "integrityValid (catchUnexpected (afterParse lib now so p7 sb r)) = integrityValid r"
    and "certificates (catchUnexpected (afterParse lib now so p7 sb r)) = certificates r"
  by (simp_all add: afterParse_thrown [OF assms] certificateBranch_thrown [OF assms(2)])

lemma afterParse_listed_result:
  assumes "pkcs7.certificates p7 = cert # others"
    and "chainListing lib now (pkcs7.certificates p7) = Inr entries"
  shows "errors (catchUnexpected (afterParse lib now so p7 sb r)) =
           errors r @
           (case (case signers p7 of [] \<Rightarrow> Inl (mdOfUndefined lib)
                  | s # _ \<Rightarrow> verify lib (feedSigner p7 s sb)) of
              Inl e \<Rightarrow> [''Integrity verification failed: '' @ jsError.message e]
            | Inr v \<Rightarrow> []) @
           (case extractSigningTime lib (case signers p7 of [] \<Rightarrow> None | s # _ \<Rightarrow> Some s) of
              Inl e \<Rightarrow> [''Unexpected error: '' @ jsError.message e]
            | Inr t \<Rightarrow> [])"
    and "integrityValid (catchUnexpected (afterParse lib now so p7 sb r)) =
           (case (case signers p7 of [] \<Rightarrow> Inl (mdOfUndefined lib)
                  | s # _ \<Rightarrow> verify lib (feedSigner p7 s sb)) of
              Inl e \<Rightarrow> False
            | Inr v \<Rightarrow> v)"
    and "certTrustValid (catchUnexpected (afterParse lib now so p7 sb r)) =
           (\<not> isSelfSigned (catchUnexpected (afterParse lib now so p7 sb r)) \<and>
            \<not> isExpired (catchUnexpected (afterParse lib now so p7 sb r)))"
    and "certificates (catchUnexpected (afterParse lib now so p7 sb r)) = entries"
  by (simp_all add: afterParse_listed [OF assms] catchUnexpected_fields catchUnexpected_errors
        afterCertificate_fields certificateBranch_listed [OF assms(2)]
      split: list.splits sum.splits)

lemma afterParse_no_certificate_result:
  assumes "pkcs7.certificates p7 = []"
  shows "errors (catchUnexpected (afterParse lib now so p7 sb r)) =
           errors r @ [''No certificates found in signature.''] @
           (case extractSigningTime lib (case signers p7 of [] \<Rightarrow> None | s # _ \<Rightarrow> Some s) of
              Inl e \<Rightarrow> [''Unexpected error: '' @ jsError.message e]
            | Inr t \<Rightarrow> [])"
  by (simp add: afterParse_no_certificate [OF assms] catchUnexpected_errors afterCertificate_fields
      split: sum.splits)

subsection \<open>Verification of a descriptor\<close>

lemma initialResult_fields:
  "errors initialResult = []" "\<not> certTrustValid initialResult" "\<not> integrityValid initialResult"
  "certificates initialResult = []"
  by (simp_all add: initialResult_def)

lemma tryBlock_missing:
  "sigObj.byteRange so = None \<or> sigObj.contents so = None \<or> sigObj.contents so = Some [] \<Longrightarrow>
   tryBlock lib now so bytes r =
     (None, r\<lparr>errors := errors r @ [''Missing ByteRange or Contents in signature dictionary.'']\<rparr>)"
  by (auto simp: tryBlock_def Let_def split: option.splits)

lemma tryBlock_unparsed:
  "sigObj.byteRange so = Some br \<Longrightarrow> sigObj.contents so = Some c \<Longrightarrow> c \<noteq> [] \<Longrightarrow>
   parseCMSSignature lib c = Inl e \<Longrightarrow>
   tryBlock lib now so bytes r =
     (None, r\<lparr>errors := errors r @ [''Failed to parse signature CMS data: '' @ jsError.message e]\<rparr>)"
  by (simp add: tryBlock_def Let_def)

lemma tryBlock_decoded:
  assumes "sigObj.byteRange so = Some br" "sigObj.contents so = Some c" "c \<noteq> []"
    and "parseCMSSignature lib c = Inr p7"
  shows "tryBlock lib now so bytes r =
           afterParse lib now so p7
             (extractByteRange bytes [(element br 0, element br 1), (element br 2, element br 3)]) r"
  using assms by (simp add: tryBlock_def Let_def)

lemma verifyPDFSignature_decoded:
  assumes "sigObj.byteRange so = Some br" "sigObj.contents so = Some c" "c \<noteq> []"
    and "parseCMSSignature lib c = Inr p7"
  shows "verifyPDFSignature lib now so bytes =
           Resolved (catchUnexpected (afterParse lib now so p7
             (extractByteRange bytes [(element br 0, element br 1), (element br 2, element br 3)])
             initialResult))"
  by (simp add: verifyPDFSignature_def tryBlock_decoded [OF assms])


text \<open>
  When the encoding of a certificate of the envelope throws, the verification ends in
  the outer \<^verbatim>\<open>catch\<close>: the trust flag keeps its initial value, whatever the two flags
  are, no certificate is listed and the integrity check has not run.
\<close>

lemma chainListing_throws:
  "encodeCertificate lib ''c'' cert = Inl e \<Longrightarrow> chainListing lib now (cert # others) = Inl e"
  by (simp add: chainEntry_def)

lemma verification_after_failed_encoding:
  assumes "sigObj.byteRange so = Some br" "sigObj.contents so = Some c" "c \<noteq> []"
    and "parseCMSSignature lib c = Inr p7"
    and "pkcs7.certificates p7 = cert # others"
    and "encodeCertificate lib ''c'' cert = Inl e"
    and "verifyPDFSignature lib now so bytes = Resolved r"
  shows "\<not> certTrustValid r" and "\<not> integrityValid r" and "certificates r = []"
    and "errors r = [''Unexpected error: '' @ jsError.message e]"
proof -
  have t: "chainListing lib now (pkcs7.certificates p7) = Inl e"
    using assms(5,6) by (simp add: chainEntry_def)
  have r: "r = catchUnexpected (afterParse lib now so p7
             (extractByteRange bytes [(element br 0, element br 1), (element br 2, element br 3)])
             initialResult)"
    using verifyPDFSignature_decoded [OF assms(1-4), of now bytes] assms(7) by simp
  show "\<not> certTrustValid r" and "\<not> integrityValid r" and "certificates r = []"
    and "errors r = [''Unexpected error: '' @ jsError.message e]"
    unfolding r by (simp_all add: afterParse_thrown_result [OF assms(5) t] initialResult_fields)
qed

lemma verification_after_listing:
  assumes "sigObj.byteRange so = Some br" "sigObj.contents so = Some c" "c \<noteq> []"
    and "parseCMSSignature lib c = Inr p7"
    and "pkcs7.certificates p7 = cert # others"
    and "chainListing lib now (pkcs7.certificates p7) = Inr entries"
    and "verifyPDFSignature lib now so bytes = Resolved r"
  shows "certTrustValid r = (\<not> isSelfSigned r \<and> \<not> isExpired r)" and "certificates r = entries"
proof -
  have r: "r = catchUnexpected (afterParse lib now so p7
             (extractByteRange bytes [(element br 0, element br 1), (element br 2, element br 3)])
             initialResult)"
    using verifyPDFSignature_decoded [OF assms(1-4), of now bytes] assms(7) by simp
  show "certTrustValid r = (\<not> isSelfSigned r \<and> \<not> isExpired r)" and "certificates r = entries"
    unfolding r by (simp_all add: afterParse_listed_result(3,4) [OF assms(5,6)])
qed

subsection \<open>The example inputs, evaluated\<close>

lemma example_parse:
  "parseCMSSignature examplePlatform (literal ''3082'') = Inr exampleEnvelope"
  "parseCMSSignature examplePlatform (literal ''30'') = Inl (Error ''Too few bytes to parse DER.'')"
  "parseCMSSignature examplePlatform (literal ''3083'') = Inr envelopeBadTime"
  "parseCMSSignature examplePlatform (literal ''3084'') = Inr envelopeNoSigner"
  "parseCMSSignature forgePlatform (literal ''3082'') = Inr envelopeNoSigner"
  by code_simp+

lemma example_descriptor:
  "sigObj.byteRange exampleSigObj = Some (NestedRange [(0, 10), (20, 5)])"
  "sigObj.contents exampleSigObj = Some (literal ''3082'')"
  "literal ''3082'' \<noteq> []"
  by (simp_all add: exampleSigObj_def literal_def)

lemma example_verification:
  "verifyPDFSignature examplePlatform 1700000000000 exampleSigObj unsignedDocument
     = Resolved exampleResult"
  by code_simp

lemma example_verification_at_notAfter:
  "verifyPDFSignature examplePlatform 2000000000000 exampleSigObj unsignedDocument
     = Resolved exampleResult"
  by code_simp

lemma example_verification_second_later:
  "verifyPDFSignature examplePlatform 2000000001000 exampleSigObj unsignedDocument
     = Resolved exampleExpiredResult"
  by code_simp

lemma forge_verification:
  "verifyPDFSignature forgePlatform 1700000000000 exampleSigObj unsignedDocument
     = Resolved forgeResult"
  by code_simp

lemma forge_verification_at_notAfter:
  "verifyPDFSignature forgePlatform 2000000000000 exampleSigObj unsignedDocument
     = Resolved forgeResult"
  by code_simp

lemma forge_verification_second_later:
  "verifyPDFSignature forgePlatform 2000000001000 exampleSigObj unsignedDocument
     = Resolved forgeExpiredResult"
  by code_simp

lemma example_result_status:
  "getOverallStatus exampleResult = ''valid''"
  "getOverallStatus missingEnvelopeResult = ''invalid''"
  "getOverallStatus tamperedResult = ''tampered''"
  by (simp_all add: getOverallStatus_def exampleResult_def missingEnvelopeResult_def
        tamperedResult_def initialResult_def)

lemma example_statuses:
  "map getOverallStatus (signatures exampleOutput) = [''valid'', ''invalid'']"
  "map getOverallStatus (signatures tamperedOutput) = [''tampered'']"
  by (simp_all add: exampleOutput_def tamperedOutput_def entry_status example_result_status)

lemma example_form:
  "getDocument examplePdfjs bytes =
     Inr \<lparr>pdfDocument.numPages = 1,
          getFieldObjects = Inr (Some [(''Signature1'', [\<lparr>fieldType = ''signature''\<rparr>])])\<rparr>"
  "getDocument copyingPdfjs bytes =
     Inr \<lparr>pdfDocument.numPages = 1,
          getFieldObjects = Inr (Some [(''Signature1'', [\<lparr>fieldType = ''signature''\<rparr>])])\<rparr>"
  "signatureFields (Some [(''Signature1'', [\<lparr>fieldType = ''signature''\<rparr>])]) \<noteq> []"
  "getDocument formlessPdfjs bytes = Inr \<lparr>pdfDocument.numPages = 1, getFieldObjects = Inr None\<rparr>"
  "signatureFields None = []"
  "retained examplePdfjs bytes = []"
  "retained copyingPdfjs bytes = bytes"
  by (simp_all add: examplePdfjs_def copyingPdfjs_def formlessPdfjs_def signatureFields_def
        retained_def)

lemma empty_text_scan: "scanByteRange 0 (decodeLatin1 []) = []"
  by code_simp

lemma unsigned_document_scan: "scanByteRange 0 (decodeLatin1 unsignedDocument) = []"
  by code_simp


lemma two_field_document_length: "length twoFieldDocument = 379"
  by (simp add: twoFieldDocument_def)

lemma out_of_range_extraction:
  "extractByteRange twoFieldDocument [(Num 0, Num 9999), (Num 20000, Num 500)] = twoFieldDocument"
  by code_simp

lemma whole_document_extraction:
  "extractByteRange twoFieldDocument [(Num 0, Num 379), (Num 379, Num 0)] = twoFieldDocument"
  by code_simp

lemma example_document_verification:
  "verifyPDFSignatures examplePlatform copyingPdfjs exampleClock (Inr twoFieldDocument)
     = Resolved exampleOutput"
  by code_simp



lemma unsigned_document_verification:
  "verifyPDFSignatures examplePlatform examplePdfjs exampleClock (Inr unsignedDocument)
     = Resolved unsignedOutput"
  by code_simp

subsection \<open>Document verification\<close>

lemma verifyPDFSignatures_resolved:
  assumes "verifyPDFSignatures lib pdf clock file = Resolved out"
  obtains bytes doc form where
    "file = Inr bytes" "getDocument pdf bytes = Inr doc" "getFieldObjects doc = Inr form"
    "signatureFields form = [] \<longrightarrow>
       out = \<lparr>numPages = pdfDocument.numPages doc, signatures = [], hasSignatures = False,
              message = Some ''No digital signatures found in this document.''\<rparr>"
    "signatureFields form \<noteq> [] \<longrightarrow>
       (\<exists>sigs. verifyEach lib clock (signatureFields form) (retained pdf bytes) 0
                 (sigObjects (scanByteRange 0 (decodeLatin1 (retained pdf bytes)))
                    (scanContents 0 (decodeLatin1 (retained pdf bytes)))
                    (scanParenthesized ''/Reason'' 0 (decodeLatin1 (retained pdf bytes)))
                    (scanParenthesized ''/Location'' 0 (decodeLatin1 (retained pdf bytes)))) = Inr sigs \<and>
               out = \<lparr>numPages = pdfDocument.numPages doc, signatures = sigs,
                      hasSignatures = (length sigs > 0), message = None\<rparr>)"
  using assms
  by (auto simp: verifyPDFSignatures_def Let_def split: sum.splits if_splits)





subsection \<open>Byte ranges\<close>

lemma slice_in_range:
  assumes "0 \<le> s" "0 \<le> l"
  shows "slice bytes s (s + l) = take (nat l) (drop (nat s) bytes)"
proof (cases "s \<le> int (length bytes)")
  case True
  have "take (nat (max (min (s + l) (int (length bytes)) - s) 0)) (drop (nat s) bytes)
          = take (nat l) (drop (nat s) bytes)"
  proof (cases "s + l \<le> int (length bytes)")
    case True
    then show ?thesis using assms by (simp add: min_def max_def)
  next
    case False
    then have "nat (max (min (s + l) (int (length bytes)) - s) 0) = length (drop (nat s) bytes)"
      and "length (drop (nat s) bytes) \<le> nat l"
      using assms True by (auto simp: min_def max_def)
    then show ?thesis by simp
  qed
  then show ?thesis using assms True by (simp add: slice_def Let_def min_def)
next
  case False
  then show ?thesis using assms by (simp add: slice_def Let_def min_def max_def)
qed

lemma extractByteRange_numbers:
  assumes "0 \<le> s1" "0 \<le> l1" "0 \<le> s2" "0 \<le> l2"
  shows "extractByteRange bytes [(Num s1, Num l1), (Num s2, Num l2)]
           = take (nat l1) (drop (nat s1) bytes) @ take (nat l2) (drop (nat s2) bytes)"
  using assms by (simp add: extractByteRange_def slice_in_range)

text \<open>
  The signed bytes of a descriptor built by the document scan: its byte range is an
  array of pairs, of which \<^verbatim>\<open>verifyPDFSignature\<close> reads the elements 0 to 3 as numbers,
  so both slices are \<^verbatim>\<open>slice(0, 0)\<close>.
\<close>

lemma nested_range_extracts_nothing:
  "extractByteRange bytes
     [(element (NestedRange ps) 0, element (NestedRange ps) 1),
      (element (NestedRange ps) 2, element (NestedRange ps) 3)] = []"
  by (simp add: extractByteRange_def slice_def)

text \<open>
  The descriptor's byte range enters the verification only through the bytes that the
  extractor returns for it.
\<close>

lemma afterCertificate_descriptor:
  assumes "sigObj.reason so' = sigObj.reason so" and "sigObj.location so' = sigObj.location so"
  shows "afterCertificate lib so' si r = afterCertificate lib so si r"
  unfolding afterCertificate_def assms ..

lemma afterParse_descriptor:
  assumes "sigObj.reason so' = sigObj.reason so" and "sigObj.location so' = sigObj.location so"
  shows "afterParse lib now so' p7 sb r = afterParse lib now so p7 sb r"
  unfolding afterParse_def afterCertificate_descriptor [OF assms] ..

lemma verification_by_extracted_bytes:
  assumes "sigObj.byteRange so = Some br" and "sigObj.byteRange so' = Some br'"
    and "sigObj.contents so' = sigObj.contents so"
    and "sigObj.reason so' = sigObj.reason so" and "sigObj.location so' = sigObj.location so"
    and "extractByteRange bytes [(element br' 0, element br' 1), (element br' 2, element br' 3)]
           = extractByteRange bytes [(element br 0, element br 1), (element br 2, element br 3)]"
  shows "verifyPDFSignature lib now so' bytes = verifyPDFSignature lib now so bytes"
  using assms(1,2,3,6)
  by (simp add: verifyPDFSignature_def tryBlock_def Let_def afterParse_descriptor [OF assms(4,5)]
      split: option.splits sum.splits)

subsection \<open>Certificate inspector\<close>

text \<open>
  After a failed PEM attempt the DER decoder is handed a string of zero bytes, as long as
  the runtime reads the text as a number: the bytes of the file never reach it.
\<close>

lemma decodeCertificate_after_pem_failure:
  "certificateFromPem lib text = Inl e \<Longrightarrow>
   decodeCertificate lib text =
     (case toIndex lib text of
        Inl e' \<Rightarrow> Inl e'
      | Inr k \<Rightarrow>
          (case fromDer lib (replicate k (CHR 0x00)) of
             Inl e' \<Rightarrow> Inl e'
           | Inr asn1 \<Rightarrow> certificateFromAsn1 lib asn1))"
  by (simp add: decodeCertificate_def Let_def split: sum.splits)

lemma verifyCertificate_decoded:
  "decodeCertificate lib text = Inr cert \<Longrightarrow>
   verifyCertificate lib now (Inr text) =
     (case inspect lib now cert of
        Inl err \<Rightarrow> Rejected (Error (''Failed to parse certificate: '' @ jsError.message err))
      | Inr result \<Rightarrow> Resolved result)"
  by (simp add: verifyCertificate_def)

lemma verifyCertificate_rejects:
  "decodeCertificate lib text = Inl err \<Longrightarrow>
   verifyCertificate lib now (Inr text)
     = Rejected (Error (''Failed to parse certificate: '' @ jsError.message err))"
  by (simp add: verifyCertificate_def)

text \<open>
  A file that decodes as PEM is rejected all the same when the encoding of the decoded
  certificate throws.
\<close>

lemma verifyCertificate_pem_rejected:
  "certificateFromPem lib text = Inr cert \<Longrightarrow> encodeCertificate lib ''cert'' cert = Inl e \<Longrightarrow>
   verifyCertificate lib now (Inr text)
     = Rejected (Error (''Failed to parse certificate: '' @ jsError.message e))"
  by (simp add: verifyCertificate_def decodeCertificate_def inspect_def)

section \<open>Verified properties\<close>

subsection \<open>Status classifier\<close>

text \<open>
  C1. The per-signature status classifier \<^verbatim>\<open>getOverallStatus\<close> is a function of the
  result alone and applies a strict precedence, first match wins: a non-empty errors list
  gives \<^verbatim>\<open>invalid\<close>; else \<^verbatim>\<open>isExpired\<close> gives \<^verbatim>\<open>expired\<close>; else \<^verbatim>\<open>isSelfSigned\<close> gives
  \<^verbatim>\<open>self-signed\<close>; else a false \<^verbatim>\<open>integrityValid\<close> gives \<^verbatim>\<open>tampered\<close>; else a false
  \<^verbatim>\<open>certTrustValid\<close> gives \<^verbatim>\<open>untrusted\<close>; otherwise \<^verbatim>\<open>valid\<close>. In particular a result
  with errors that is also expired is \<^verbatim>\<open>invalid\<close>, not \<^verbatim>\<open>expired\<close>.
\<close>

theorem getOverallStatus_precedence:
  "(errors sig \<noteq> [] \<longrightarrow> getOverallStatus sig = ''invalid'') \<and>
   (errors sig = [] \<and> isExpired sig \<longrightarrow> getOverallStatus sig = ''expired'') \<and>
   (errors sig = [] \<and> \<not> isExpired sig \<and> isSelfSigned sig \<longrightarrow>
      getOverallStatus sig = ''self-signed'') \<and>
   (errors sig = [] \<and> \<not> isExpired sig \<and> \<not> isSelfSigned sig \<and> \<not> integrityValid sig \<longrightarrow>
      getOverallStatus sig = ''tampered'') \<and>
   (errors sig = [] \<and> \<not> isExpired sig \<and> \<not> isSelfSigned sig \<and> integrityValid sig \<and>
    \<not> certTrustValid sig \<longrightarrow> getOverallStatus sig = ''untrusted'') \<and>
   (errors sig = [] \<and> \<not> isExpired sig \<and> \<not> isSelfSigned sig \<and> integrityValid sig \<and>
    certTrustValid sig \<longrightarrow> getOverallStatus sig = ''valid'') \<and>
   (errors sig \<noteq> [] \<and> isExpired sig \<longrightarrow>
      getOverallStatus sig = ''invalid'' \<and> getOverallStatus sig \<noteq> ''expired'')"
  by (simp add: getOverallStatus_def)

theorem getOverallStatus_precedence_witness:
  "getOverallStatus (initialResult\<lparr>isExpired := True, errors := [''Unexpected error: x'']\<rparr>)
     = ''invalid'' \<and>
   getOverallStatus (initialResult\<lparr>isExpired := True, isSelfSigned := True\<rparr>) = ''expired'' \<and>
   getOverallStatus (initialResult\<lparr>isSelfSigned := True\<rparr>) = ''self-signed'' \<and>
   getOverallStatus initialResult = ''tampered'' \<and>
   getOverallStatus (initialResult\<lparr>integrityValid := True\<rparr>) = ''untrusted'' \<and>
   getOverallStatus (initialResult\<lparr>integrityValid := True, certTrustValid := True\<rparr>) = ''valid''"
  using getOverallStatus_precedence
          [of "initialResult\<lparr>isExpired := True, errors := [''Unexpected error: x'']\<rparr>"]
        getOverallStatus_precedence [of "initialResult\<lparr>isExpired := True, isSelfSigned := True\<rparr>"]
        getOverallStatus_precedence [of "initialResult\<lparr>isSelfSigned := True\<rparr>"]
        getOverallStatus_precedence [of initialResult]
        getOverallStatus_precedence [of "initialResult\<lparr>integrityValid := True\<rparr>"]
        getOverallStatus_precedence
          [of "initialResult\<lparr>integrityValid := True, certTrustValid := True\<rparr>"]
  by (simp add: initialResult_def)

subsection \<open>Certificate facts\<close>

text \<open>
  C4. The trust flag is to be \<^verbatim>\<open>!isSelfSigned && !isExpired\<close> for every verified
  signature whose envelope holds a certificate. The assignment is the last statement of
  the certificate branch. Before it the branch lists the chain, and for the fingerprint
  of each entry it calls \<^verbatim>\<open>c.toAsn1()\<close>, a method that a certificate decoded by
  node-forge does not have. The call throws, the outer \<^verbatim>\<open>catch\<close> takes over, and the
  flag keeps its initial value: here it is false for a certificate that is neither
  self-signed nor expired.
\<close>

theorem certTrustValid_left_unassigned:
  "parseCMSSignature forgePlatform (literal ''3082'') = Inr envelopeNoSigner \<and>
   pkcs7.certificates envelopeNoSigner = [exampleCertificate] \<and>
   encodeCertificate forgePlatform ''c'' exampleCertificate
     = Inl (Error ''c.toAsn1 is not a function'') \<and>
   verifyPDFSignature forgePlatform 1700000000000 exampleSigObj unsignedDocument
     = Resolved forgeResult \<and>
   hash (certificate.issuer exampleCertificate) \<noteq> hash (certificate.subject exampleCertificate) \<and>
   notAfter (validity exampleCertificate) > 1700000000000 \<and>
   \<not> isSelfSigned forgeResult \<and> \<not> isExpired forgeResult \<and>
   certTrustValid forgeResult \<noteq> (\<not> isSelfSigned forgeResult \<and> \<not> isExpired forgeResult) \<and>
   certificates forgeResult = [] \<and>
   errors forgeResult = [''Unexpected error: c.toAsn1 is not a function'']"
  using forge_verification example_parse(5)
  by (simp add: envelopeNoSigner_def forgePlatform_def examplePlatform_def forgeResult_def
        exampleCertificate_def)

text \<open>
  C6. Expiry is a strict comparison: \<^verbatim>\<open>isExpired\<close> is true exactly when the current time
  is greater than \<^verbatim>\<open>notAfter\<close>, in the verifier's result (however the verification
  ends after the flag is set), in every entry of the chain listing and in the
  inspector's result. A certificate whose \<^verbatim>\<open>notAfter\<close> is the current time is not
  expired; one second (1000 ms) later it is.
\<close>

theorem expiry_is_strict:
  "(\<forall>e. chainEntry lib now cert = Inr e \<longrightarrow>
      (certificateEntry.isExpired e \<longleftrightarrow> now > notAfter (validity cert))) \<and>
   (\<forall>x. inspect lib now cert = Inr x \<longrightarrow>
      (certificateResult.isExpired x \<longleftrightarrow> now > notAfter (validity cert))) \<and>
   (sigObj.byteRange so = Some br \<and> sigObj.contents so = Some c \<and> c \<noteq> [] \<and>
    parseCMSSignature lib c = Inr p7 \<and> pkcs7.certificates p7 = cert # others \<and>
    verifyPDFSignature lib now so bytes = Resolved r \<longrightarrow>
      (isExpired r \<longleftrightarrow> now > notAfter (validity cert))) \<and>
   (decodeCertificate lib text = Inr cert \<and> verifyCertificate lib now (Inr text) = Resolved res \<longrightarrow>
      (certificateResult.isExpired res \<longleftrightarrow> now > notAfter (validity cert))) \<and>
   (\<forall>e. chainEntry lib (notAfter (validity cert)) cert = Inr e \<longrightarrow>
      \<not> certificateEntry.isExpired e) \<and>
   (\<forall>e. chainEntry lib (notAfter (validity cert) + 1000) cert = Inr e \<longrightarrow>
      certificateEntry.isExpired e) \<and>
   (\<forall>x. inspect lib (notAfter (validity cert)) cert = Inr x \<longrightarrow>
      \<not> certificateResult.isExpired x) \<and>
   (\<forall>x. inspect lib (notAfter (validity cert) + 1000) cert = Inr x \<longrightarrow>
      certificateResult.isExpired x) \<and>
   (sigObj.byteRange so = Some br \<and> sigObj.contents so = Some c \<and> c \<noteq> [] \<and>
    parseCMSSignature lib c = Inr p7 \<and> pkcs7.certificates p7 = cert # others \<longrightarrow>
      (\<forall>x. verifyPDFSignature lib (notAfter (validity cert)) so bytes = Resolved x \<longrightarrow>
         \<not> isExpired x) \<and>
      (\<forall>x. verifyPDFSignature lib (notAfter (validity cert) + 1000) so bytes = Resolved x \<longrightarrow>
         isExpired x))"
proof -
  have v: "isExpired x \<longleftrightarrow> t > notAfter (validity cert)"
    if "sigObj.byteRange so = Some br" "sigObj.contents so = Some c" "c \<noteq> []"
      "parseCMSSignature lib c = Inr p7" "pkcs7.certificates p7 = cert # others"
      "verifyPDFSignature lib t so bytes = Resolved x" for t x
  proof -
    have "x = catchUnexpected (afterParse lib t so p7
             (extractByteRange bytes [(element br 0, element br 1), (element br 2, element br 3)])
             initialResult)"
      using verifyPDFSignature_decoded [OF that(1-4), of t bytes] that(6) by simp
    then show ?thesis
      by (simp add: catchUnexpected_fields afterParse_flags(1) [OF that(5)])
  qed
  have i: "certificateResult.isExpired x \<longleftrightarrow> t > notAfter (validity cert)"
    if "inspect lib t cert = Inr x" for t x
    using that by (auto simp: inspect_def split: sum.splits)
  have e: "certificateEntry.isExpired x \<longleftrightarrow> t > notAfter (validity cert)"
    if "chainEntry lib t cert = Inr x" for t x
    using that by (auto simp: chainEntry_def split: sum.splits)
  have d: "certificateResult.isExpired res \<longleftrightarrow> now > notAfter (validity cert)"
    if "decodeCertificate lib text = Inr cert" "verifyCertificate lib now (Inr text) = Resolved res"
    using verifyCertificate_decoded [OF that(1), of now] that(2) i [of now res]
    by (simp split: sum.splits)
  have 1: "\<forall>x. chainEntry lib now cert = Inr x \<longrightarrow>
      (certificateEntry.isExpired x \<longleftrightarrow> now > notAfter (validity cert))"
    using e by blast
  have 2: "\<forall>x. inspect lib now cert = Inr x \<longrightarrow>
      (certificateResult.isExpired x \<longleftrightarrow> now > notAfter (validity cert))"
    using i by blast
  have 3: "sigObj.byteRange so = Some br \<and> sigObj.contents so = Some c \<and> c \<noteq> [] \<and>
    parseCMSSignature lib c = Inr p7 \<and> pkcs7.certificates p7 = cert # others \<and>
    verifyPDFSignature lib now so bytes = Resolved r \<longrightarrow>
      (isExpired r \<longleftrightarrow> now > notAfter (validity cert))"
    using v by blast
  have 4: "decodeCertificate lib text = Inr cert \<and> verifyCertificate lib now (Inr text) = Resolved res \<longrightarrow>
      (certificateResult.isExpired res \<longleftrightarrow> now > notAfter (validity cert))"
    using d by blast
  have 5: "\<forall>x. chainEntry lib (notAfter (validity cert)) cert = Inr x \<longrightarrow>
      \<not> certificateEntry.isExpired x"
    using e [of "notAfter (validity cert)"] by simp
  have 6: "\<forall>x. chainEntry lib (notAfter (validity cert) + 1000) cert = Inr x \<longrightarrow>
      certificateEntry.isExpired x"
    using e [of "notAfter (validity cert) + 1000"] by simp
  have 7: "\<forall>x. inspect lib (notAfter (validity cert)) cert = Inr x \<longrightarrow>
      \<not> certificateResult.isExpired x"
    using i [of "notAfter (validity cert)"] by simp
  have 8: "\<forall>x. inspect lib (notAfter (validity cert) + 1000) cert = Inr x \<longrightarrow>
      certificateResult.isExpired x"
    using i [of "notAfter (validity cert) + 1000"] by simp
  have 9: "sigObj.byteRange so = Some br \<and> sigObj.contents so = Some c \<and> c \<noteq> [] \<and>
    parseCMSSignature lib c = Inr p7 \<and> pkcs7.certificates p7 = cert # others \<longrightarrow>
      (\<forall>x. verifyPDFSignature lib (notAfter (validity cert)) so bytes = Resolved x \<longrightarrow>
         \<not> isExpired x) \<and>
      (\<forall>x. verifyPDFSignature lib (notAfter (validity cert) + 1000) so bytes = Resolved x \<longrightarrow>
         isExpired x)"
    using v [of "notAfter (validity cert)"] v [of "notAfter (validity cert) + 1000"] by simp
  show ?thesis
    using 1 2 3 4 5 6 7 8 9 by (intro conjI)
qed

theorem expiry_is_strict_witness:
  "notAfter (validity exampleCertificate) = 2000000000000 \<and>
   verifyPDFSignature examplePlatform 2000000000000 exampleSigObj unsignedDocument
     = Resolved exampleResult \<and>
   \<not> isExpired exampleResult \<and>
   verifyPDFSignature examplePlatform 2000000001000 exampleSigObj unsignedDocument
     = Resolved exampleExpiredResult \<and>
   isExpired exampleExpiredResult \<and>
   verifyPDFSignature forgePlatform 2000000000000 exampleSigObj unsignedDocument
     = Resolved forgeResult \<and>
   \<not> isExpired forgeResult \<and>
   verifyPDFSignature forgePlatform 2000000001000 exampleSigObj unsignedDocument
     = Resolved forgeExpiredResult \<and>
   isExpired forgeExpiredResult \<and>
   (\<exists>e. chainEntry examplePlatform 2000000000000 exampleCertificate = Inr e \<and>
        \<not> certificateEntry.isExpired e) \<and>
   (\<exists>e. chainEntry examplePlatform 2000000001000 exampleCertificate = Inr e \<and>
        certificateEntry.isExpired e) \<and>
   (\<exists>x. inspect examplePlatform 2000000000000 exampleCertificate = Inr x \<and>
        \<not> certificateResult.isExpired x) \<and>
   (\<exists>x. inspect examplePlatform 2000000001000 exampleCertificate = Inr x \<and>
        certificateResult.isExpired x)"
proof -
  note b = example_descriptor(1) and c = example_descriptor(2) and n = example_descriptor(3)
  have l: "pkcs7.certificates exampleEnvelope = exampleCertificate # []"
    "pkcs7.certificates envelopeNoSigner = exampleCertificate # []"
    by (simp_all add: exampleEnvelope_def envelopeNoSigner_def)
  have v: "notAfter (validity exampleCertificate) = 2000000000000"
    by (simp add: exampleCertificate_def)
  have 1: "isExpired exampleResult \<longleftrightarrow> 2000000000000 > notAfter (validity exampleCertificate)"
    using expiry_is_strict [of examplePlatform 2000000000000 exampleCertificate exampleSigObj
        "NestedRange [(0, 10), (20, 5)]" "literal ''3082''" exampleEnvelope "[]" unsignedDocument
        exampleResult]
      b c n example_parse(1) l(1) example_verification_at_notAfter
    by blast
  have 2: "isExpired exampleExpiredResult \<longleftrightarrow> 2000000001000 > notAfter (validity exampleCertificate)"
    using expiry_is_strict [of examplePlatform 2000000001000 exampleCertificate exampleSigObj
        "NestedRange [(0, 10), (20, 5)]" "literal ''3082''" exampleEnvelope "[]" unsignedDocument
        exampleExpiredResult]
      b c n example_parse(1) l(1) example_verification_second_later
    by blast
  have 3: "isExpired forgeResult \<longleftrightarrow> 2000000000000 > notAfter (validity exampleCertificate)"
    using expiry_is_strict [of forgePlatform 2000000000000 exampleCertificate exampleSigObj
        "NestedRange [(0, 10), (20, 5)]" "literal ''3082''" envelopeNoSigner "[]" unsignedDocument
        forgeResult]
      b c n example_parse(5) l(2) forge_verification_at_notAfter
    by blast
  have 4: "isExpired forgeExpiredResult \<longleftrightarrow> 2000000001000 > notAfter (validity exampleCertificate)"
    using expiry_is_strict [of forgePlatform 2000000001000 exampleCertificate exampleSigObj
        "NestedRange [(0, 10), (20, 5)]" "literal ''3082''" envelopeNoSigner "[]" unsignedDocument
        forgeExpiredResult]
      b c n example_parse(5) l(2) forge_verification_second_later
    by blast
  have k: "\<exists>e. chainEntry examplePlatform t exampleCertificate = Inr e" for t
    by (simp add: chainEntry_def examplePlatform_def)
  have j: "\<exists>x. inspect examplePlatform t exampleCertificate = Inr x" for t
    by (simp add: inspect_def examplePlatform_def)
  have 5: "\<exists>e. chainEntry examplePlatform 2000000000000 exampleCertificate = Inr e \<and>
        \<not> certificateEntry.isExpired e"
    using expiry_is_strict [of examplePlatform 2000000000000 exampleCertificate]
      k [of 2000000000000] v by auto
  have 6: "\<exists>e. chainEntry examplePlatform 2000000001000 exampleCertificate = Inr e \<and>
        certificateEntry.isExpired e"
    using expiry_is_strict [of examplePlatform 2000000001000 exampleCertificate]
      k [of 2000000001000] v by auto
  have 7: "\<exists>x. inspect examplePlatform 2000000000000 exampleCertificate = Inr x \<and>
        \<not> certificateResult.isExpired x"
    using expiry_is_strict [of examplePlatform 2000000000000 exampleCertificate]
      j [of 2000000000000] v by auto
  have 8: "\<exists>x. inspect examplePlatform 2000000001000 exampleCertificate = Inr x \<and>
        certificateResult.isExpired x"
    using expiry_is_strict [of examplePlatform 2000000001000 exampleCertificate]
      j [of 2000000001000] v by auto
  show ?thesis
    using 1 2 3 4 5 6 7 8 v example_verification_at_notAfter example_verification_second_later
      forge_verification_at_notAfter forge_verification_second_later
    by simp
qed

subsection \<open>Signature verifier\<close>

text \<open>
  C9. Per-signature verification is total: for every descriptor and document,
  \<^verbatim>\<open>verifyPDFSignature\<close> resolves with a result and never rejects. Every failure is in the
  result's errors list: a missing byte range or envelope; an envelope that does not
  decode; an envelope without certificates; a throw while the certificate chain is
  listed, which ends the verification in the outer \<^verbatim>\<open>catch\<close> before the integrity check
  has run; once the chain is listed, an integrity check that throws (the signer is
  absent, or the envelope's own verification throws); a signing time that does not
  decode; and whatever else leaves the \<^verbatim>\<open>try\<close> block as an exception. Byte-range
  extraction itself cannot throw: \<open>extractByteRange\<close> is a total function.
\<close>

theorem verifyPDFSignature_total:
  "\<exists>r. verifyPDFSignature lib now so bytes = Resolved r \<and>
     (sigObj.byteRange so = None \<or> sigObj.contents so = None \<or> sigObj.contents so = Some [] \<longrightarrow>
        errors r = [''Missing ByteRange or Contents in signature dictionary.'']) \<and>
     (\<forall>br c. sigObj.byteRange so = Some br \<and> sigObj.contents so = Some c \<and> c \<noteq> [] \<longrightarrow>
        (\<forall>e. parseCMSSignature lib c = Inl e \<longrightarrow>
           errors r = [''Failed to parse signature CMS data: '' @ jsError.message e]) \<and>
        (\<forall>p7. parseCMSSignature lib c = Inr p7 \<longrightarrow>
           (pkcs7.certificates p7 = [] \<longrightarrow>
              ''No certificates found in signature.'' \<in> set (errors r)) \<and>
           (\<forall>e. pkcs7.certificates p7 \<noteq> [] \<and>
                chainListing lib now (pkcs7.certificates p7) = Inl e \<longrightarrow>
              errors r = [''Unexpected error: '' @ jsError.message e] \<and>
              \<not> integrityValid r \<and> \<not> certTrustValid r \<and> certificates r = []) \<and>
           (\<forall>entries.
              pkcs7.certificates p7 \<noteq> [] \<and>
              chainListing lib now (pkcs7.certificates p7) = Inr entries \<and> signers p7 = [] \<longrightarrow>
              ''Integrity verification failed: '' @ jsError.message (mdOfUndefined lib)
                \<in> set (errors r) \<and>
              \<not> integrityValid r) \<and>
           (\<forall>entries si rest e.
              pkcs7.certificates p7 \<noteq> [] \<and>
              chainListing lib now (pkcs7.certificates p7) = Inr entries \<and>
              signers p7 = si # rest \<and>
              verify lib (feedSigner p7 si (extractByteRange bytes
                [(element br 0, element br 1), (element br 2, element br 3)])) = Inl e \<longrightarrow>
              ''Integrity verification failed: '' @ jsError.message e \<in> set (errors r) \<and>
              \<not> integrityValid r) \<and>
           (\<forall>entries e.
              chainListing lib now (pkcs7.certificates p7) = Inr entries \<and>
              extractSigningTime lib (case signers p7 of [] \<Rightarrow> None | s # _ \<Rightarrow> Some s) = Inl e \<longrightarrow>
              errors r \<noteq> [] \<and> last (errors r) = ''Unexpected error: '' @ jsError.message e))) \<and>
     (\<forall>e r'. tryBlock lib now so bytes initialResult = (Some e, r') \<longrightarrow>
        errors r = errors r' @ [''Unexpected error: '' @ jsError.message e])"
proof -
  let ?r = "catchUnexpected (tryBlock lib now so bytes initialResult)"
  have 1: "verifyPDFSignature lib now so bytes = Resolved ?r"
    by (simp add: verifyPDFSignature_def)
  have 2: "errors ?r = [''Missing ByteRange or Contents in signature dictionary.'']"
    if "sigObj.byteRange so = None \<or> sigObj.contents so = None \<or> sigObj.contents so = Some []"
    by (simp add: tryBlock_missing [OF that] initialResult_fields)
  have 3: "errors ?r = [''Failed to parse signature CMS data: '' @ jsError.message e]"
    if "sigObj.byteRange so = Some br" "sigObj.contents so = Some c" "c \<noteq> []"
      "parseCMSSignature lib c = Inl e" for br c e
    by (simp add: tryBlock_unparsed [OF that] initialResult_fields)
  have 4: "(pkcs7.certificates p7 = [] \<longrightarrow>
              ''No certificates found in signature.'' \<in> set (errors ?r)) \<and>
           (\<forall>e. pkcs7.certificates p7 \<noteq> [] \<and>
                chainListing lib now (pkcs7.certificates p7) = Inl e \<longrightarrow>
              errors ?r = [''Unexpected error: '' @ jsError.message e] \<and>
              \<not> integrityValid ?r \<and> \<not> certTrustValid ?r \<and> certificates ?r = []) \<and>
           (\<forall>entries.
              pkcs7.certificates p7 \<noteq> [] \<and>
              chainListing lib now (pkcs7.certificates p7) = Inr entries \<and> signers p7 = [] \<longrightarrow>
              ''Integrity verification failed: '' @ jsError.message (mdOfUndefined lib)
                \<in> set (errors ?r) \<and>
              \<not> integrityValid ?r) \<and>
           (\<forall>entries si rest e.
              pkcs7.certificates p7 \<noteq> [] \<and>
              chainListing lib now (pkcs7.certificates p7) = Inr entries \<and>
              signers p7 = si # rest \<and>
              verify lib (feedSigner p7 si (extractByteRange bytes
                [(element br 0, element br 1), (element br 2, element br 3)])) = Inl e \<longrightarrow>
              ''Integrity verification failed: '' @ jsError.message e \<in> set (errors ?r) \<and>
              \<not> integrityValid ?r) \<and>
           (\<forall>entries e.
              chainListing lib now (pkcs7.certificates p7) = Inr entries \<and>
              extractSigningTime lib (case signers p7 of [] \<Rightarrow> None | s # _ \<Rightarrow> Some s) = Inl e \<longrightarrow>
              errors ?r \<noteq> [] \<and> last (errors ?r) = ''Unexpected error: '' @ jsError.message e)"
    if d: "sigObj.byteRange so = Some br" "sigObj.contents so = Some c" "c \<noteq> []"
      "parseCMSSignature lib c = Inr p7" for br c p7
  proof (cases "pkcs7.certificates p7")
    case Nil
    show ?thesis
      unfolding tryBlock_decoded [OF d]
      by (simp add: Nil afterParse_no_certificate_result [OF Nil] initialResult_fields)
  next
    case (Cons cert others)
    show ?thesis
    proof (cases "chainListing lib now (pkcs7.certificates p7)")
      case (Inl e)
      show ?thesis
        unfolding tryBlock_decoded [OF d]
        by (simp add: Cons [symmetric] Inl afterParse_thrown_result [OF Cons Inl] initialResult_fields)
           (simp add: Cons)
    next
      case (Inr entries)
      show ?thesis
        unfolding tryBlock_decoded [OF d]
        by (simp add: Cons [symmetric] Inr afterParse_listed_result(1,2) [OF Cons Inr]
              initialResult_fields)
           (auto simp: Cons)
    qed
  qed
  have 5: "errors ?r = errors r' @ [''Unexpected error: '' @ jsError.message e]"
    if "tryBlock lib now so bytes initialResult = (Some e, r')" for e r'
    by (simp add: that)
  show ?thesis
    using 1 2 3 4 5 by (intro exI [of _ ?r]) blast
qed

theorem verifyPDFSignature_total_witness:
  "(\<exists>r. verifyPDFSignature examplePlatform 1700000000000
          (exampleSigObj\<lparr>sigObj.contents := None\<rparr>) unsignedDocument = Resolved r \<and>
        errors r = [''Missing ByteRange or Contents in signature dictionary.'']) \<and>
   (\<exists>r. verifyPDFSignature examplePlatform 1700000000000
          (exampleSigObj\<lparr>sigObj.contents := Some (literal ''30'')\<rparr>) unsignedDocument = Resolved r \<and>
        errors r = [''Failed to parse signature CMS data: Too few bytes to parse DER.'']) \<and>
   (\<exists>r. verifyPDFSignature examplePlatform 1700000000000
          (exampleSigObj\<lparr>sigObj.contents := Some (literal ''3083'')\<rparr>) unsignedDocument = Resolved r \<and>
        errors r \<noteq> [] \<and> last (errors r) = ''Unexpected error: Invalid time'') \<and>
   (\<exists>r. verifyPDFSignature examplePlatform 1700000000000
          (exampleSigObj\<lparr>sigObj.contents := Some (literal ''3084'')\<rparr>) unsignedDocument = Resolved r \<and>
        ''Integrity verification failed: '' @ jsError.message (mdOfUndefined examplePlatform)
          \<in> set (errors r) \<and>
        \<not> integrityValid r) \<and>
   (\<exists>r. verifyPDFSignature forgePlatform 1700000000000 exampleSigObj unsignedDocument = Resolved r \<and>
        errors r = [''Unexpected error: c.toAsn1 is not a function''] \<and>
        \<not> integrityValid r \<and> \<not> certTrustValid r \<and> certificates r = [])"
proof (intro conjI)
  show "\<exists>r. verifyPDFSignature examplePlatform 1700000000000
          (exampleSigObj\<lparr>sigObj.contents := None\<rparr>) unsignedDocument = Resolved r \<and>
        errors r = [''Missing ByteRange or Contents in signature dictionary.'']"
    using verifyPDFSignature_total [of examplePlatform 1700000000000
        "exampleSigObj\<lparr>sigObj.contents := None\<rparr>" unsignedDocument]
    by auto
next
  have h: "sigObj.byteRange (exampleSigObj\<lparr>sigObj.contents := Some (literal ''30'')\<rparr>)
             = Some (NestedRange [(0, 10), (20, 5)]) \<and>
           sigObj.contents (exampleSigObj\<lparr>sigObj.contents := Some (literal ''30'')\<rparr>)
             = Some (literal ''30'') \<and>
           literal ''30'' \<noteq> []"
    by (simp add: exampleSigObj_def literal_def)
  show "\<exists>r. verifyPDFSignature examplePlatform 1700000000000
          (exampleSigObj\<lparr>sigObj.contents := Some (literal ''30'')\<rparr>) unsignedDocument = Resolved r \<and>
        errors r = [''Failed to parse signature CMS data: Too few bytes to parse DER.'']"
    using verifyPDFSignature_total [of examplePlatform 1700000000000
        "exampleSigObj\<lparr>sigObj.contents := Some (literal ''30'')\<rparr>" unsignedDocument]
      h example_parse(2)
    by fastforce
next
  have h: "sigObj.byteRange (exampleSigObj\<lparr>sigObj.contents := Some (literal ''3083'')\<rparr>)
             = Some (NestedRange [(0, 10), (20, 5)]) \<and>
           sigObj.contents (exampleSigObj\<lparr>sigObj.contents := Some (literal ''3083'')\<rparr>)
             = Some (literal ''3083'') \<and>
           literal ''3083'' \<noteq> []"
    by (simp add: exampleSigObj_def literal_def)
  have t: "extractSigningTime examplePlatform
             (case signers envelopeBadTime of [] \<Rightarrow> None | s # _ \<Rightarrow> Some s)
           = Inl (Error ''Invalid time'')"
    by (simp add: extractSigningTime_def envelopeBadTime_def examplePlatform_def)
  obtain entries where
    l: "chainListing examplePlatform 1700000000000 (pkcs7.certificates envelopeBadTime) = Inr entries"
    by (simp add: envelopeBadTime_def chainEntry_def examplePlatform_def)
  show "\<exists>r. verifyPDFSignature examplePlatform 1700000000000
          (exampleSigObj\<lparr>sigObj.contents := Some (literal ''3083'')\<rparr>) unsignedDocument = Resolved r \<and>
        errors r \<noteq> [] \<and> last (errors r) = ''Unexpected error: Invalid time''"
    using verifyPDFSignature_total [of examplePlatform 1700000000000
        "exampleSigObj\<lparr>sigObj.contents := Some (literal ''3083'')\<rparr>" unsignedDocument]
      h example_parse(3) t l
    by fastforce
next
  have h: "sigObj.byteRange (exampleSigObj\<lparr>sigObj.contents := Some (literal ''3084'')\<rparr>)
             = Some (NestedRange [(0, 10), (20, 5)]) \<and>
           sigObj.contents (exampleSigObj\<lparr>sigObj.contents := Some (literal ''3084'')\<rparr>)
             = Some (literal ''3084'') \<and>
           literal ''3084'' \<noteq> []"
    by (simp add: exampleSigObj_def literal_def)
  have n: "pkcs7.certificates envelopeNoSigner \<noteq> [] \<and> signers envelopeNoSigner = []"
    by (simp add: envelopeNoSigner_def)
  obtain entries where
    l: "chainListing examplePlatform 1700000000000 (pkcs7.certificates envelopeNoSigner) = Inr entries"
    by (simp add: envelopeNoSigner_def chainEntry_def examplePlatform_def)
  show "\<exists>r. verifyPDFSignature examplePlatform 1700000000000
          (exampleSigObj\<lparr>sigObj.contents := Some (literal ''3084'')\<rparr>) unsignedDocument = Resolved r \<and>
        ''Integrity verification failed: '' @ jsError.message (mdOfUndefined examplePlatform)
          \<in> set (errors r) \<and>
        \<not> integrityValid r"
    using verifyPDFSignature_total [of examplePlatform 1700000000000
        "exampleSigObj\<lparr>sigObj.contents := Some (literal ''3084'')\<rparr>" unsignedDocument]
      h example_parse(4) n l
    by fastforce
next
  have n: "pkcs7.certificates envelopeNoSigner \<noteq> []"
    by (simp add: envelopeNoSigner_def)
  have l: "chainListing forgePlatform 1700000000000 (pkcs7.certificates envelopeNoSigner)
             = Inl (Error ''c.toAsn1 is not a function'')"
    by (simp add: envelopeNoSigner_def chainEntry_def forgePlatform_def)
  show "\<exists>r. verifyPDFSignature forgePlatform 1700000000000 exampleSigObj unsignedDocument
          = Resolved r \<and>
        errors r = [''Unexpected error: c.toAsn1 is not a function''] \<and>
        \<not> integrityValid r \<and> \<not> certTrustValid r \<and> certificates r = []"
    using verifyPDFSignature_total [of forgePlatform 1700000000000 exampleSigObj unsignedDocument]
      example_descriptor example_parse(5) n l
    by fastforce
qed

subsection \<open>Document verification\<close>

text \<open>
  C10. In every output that \<^verbatim>\<open>verifyPDFSignatures\<close> resolves with, \<^verbatim>\<open>hasSignatures\<close> is
  true if and only if the signatures list is non-empty. In particular, when the form
  enumeration reports signature-type fields but the byte-range scan finds no match, the
  signatures list is empty and \<^verbatim>\<open>hasSignatures\<close> is false: so it is when the document's
  bytes hold no marker, and so it is when the text that the scan reads holds none.
\<close>

theorem hasSignatures_iff_nonempty:
  assumes "verifyPDFSignatures lib pdf clock file = Resolved out"
  shows "(hasSignatures out \<longleftrightarrow> signatures out \<noteq> []) \<and>
         (\<forall>bytes doc form.
            file = Inr bytes \<and> getDocument pdf bytes = Inr doc \<and> getFieldObjects doc = Inr form \<and>
            signatureFields form \<noteq> [] \<and> scanByteRange 0 (decodeLatin1 bytes) = [] \<longrightarrow>
            signatures out = [] \<and> \<not> hasSignatures out) \<and>
         (\<forall>bytes doc form.
            file = Inr bytes \<and> getDocument pdf bytes = Inr doc \<and> getFieldObjects doc = Inr form \<and>
            signatureFields form \<noteq> [] \<and>
            scanByteRange 0 (decodeLatin1 (retained pdf bytes)) = [] \<longrightarrow>
            signatures out = [] \<and> \<not> hasSignatures out)"
proof -
  from assms obtain bytes doc form where
    f: "file = Inr bytes" "getDocument pdf bytes = Inr doc" "getFieldObjects doc = Inr form"
    and e: "signatureFields form = [] \<longrightarrow>
       out = \<lparr>numPages = pdfDocument.numPages doc, signatures = [], hasSignatures = False,
              message = Some ''No digital signatures found in this document.''\<rparr>"
    and s: "signatureFields form \<noteq> [] \<longrightarrow>
       (\<exists>sigs. verifyEach lib clock (signatureFields form) (retained pdf bytes) 0
                 (sigObjects (scanByteRange 0 (decodeLatin1 (retained pdf bytes)))
                    (scanContents 0 (decodeLatin1 (retained pdf bytes)))
                    (scanParenthesized ''/Reason'' 0 (decodeLatin1 (retained pdf bytes)))
                    (scanParenthesized ''/Location'' 0 (decodeLatin1 (retained pdf bytes)))) = Inr sigs \<and>
               out = \<lparr>numPages = pdfDocument.numPages doc, signatures = sigs,
                      hasSignatures = (length sigs > 0), message = None\<rparr>)"
    by (rule verifyPDFSignatures_resolved)
  have 1: "hasSignatures out \<longleftrightarrow> signatures out \<noteq> []"
    using e s by (cases "signatureFields form = []") auto
  have 2: "signatures out = []"
    if a: "signatureFields form \<noteq> []" and b: "scanByteRange 0 (decodeLatin1 (retained pdf bytes)) = []"
  proof -
    from s a obtain sigs where
      v: "verifyEach lib clock (signatureFields form) (retained pdf bytes) 0
            (sigObjects [] (scanContents 0 (decodeLatin1 (retained pdf bytes)))
               (scanParenthesized ''/Reason'' 0 (decodeLatin1 (retained pdf bytes)))
               (scanParenthesized ''/Location'' 0 (decodeLatin1 (retained pdf bytes)))) = Inr sigs"
      and o: "signatures out = sigs"
      using b by auto
    from v have "sigs = []" by (simp add: sigObjects_def)
    with o show ?thesis by simp
  qed
  have 3: "scanByteRange 0 (decodeLatin1 (retained pdf bytes)) = []"
    if "scanByteRange 0 (decodeLatin1 bytes) = []"
    using that by (simp add: retained_def empty_text_scan)
  show ?thesis using 1 2 3 f by auto
qed

theorem hasSignatures_iff_nonempty_witness:
  "verifyPDFSignatures examplePlatform examplePdfjs exampleClock (Inr unsignedDocument)
     = Resolved unsignedOutput \<and>
   signatureFields (Some [(''Signature1'', [\<lparr>fieldType = ''signature''\<rparr>])]) \<noteq> [] \<and>
   scanByteRange 0 (decodeLatin1 unsignedDocument) = [] \<and>
   signatures unsignedOutput = [] \<and> \<not> hasSignatures unsignedOutput"
  using hasSignatures_iff_nonempty [OF unsigned_document_verification]
    example_form unsigned_document_scan unsigned_document_verification
  by simp




subsection \<open>Document-level status\<close>

text \<open>
  C2, as the specification states it: the document-level status equals the most severe
  single-field status. A document whose only signature is \<^verbatim>\<open>tampered\<close> has the status
  \<^verbatim>\<open>invalid\<close>, which is the status of none of its fields.
\<close>

theorem tampered_document_is_invalid:
  "map getOverallStatus (signatures tamperedOutput) = [''tampered''] \<and>
   hasSignatures tamperedOutput \<and>
   overallStatus (Some tamperedOutput) = Some ''invalid'' \<and>
   ''invalid'' \<notin> set (map getOverallStatus (signatures tamperedOutput))"
proof -
  have s: "map getOverallStatus (signatures tamperedOutput) = [''tampered'']"
    by (rule example_statuses(2))
  have r: "reducer ''valid'' (entry ''Signature1'' tamperedResult) = ''invalid''"
    using reducer_cases(1) [of "''tampered''" "entry ''Signature1'' tamperedResult" "''valid''"]
    by (simp add: entry_status example_result_status)
  have o: "overallStatus (Some tamperedOutput) = Some ''invalid''"
    by (simp add: overallStatus_def tamperedOutput_def r)
  have h: "hasSignatures tamperedOutput" by (simp add: tamperedOutput_def)
  show ?thesis using o h by (simp add: s)
qed

text \<open>
  C2, amended. The document-level status is \<^verbatim>\<open>none\<close> when the output has
  \<^verbatim>\<open>hasSignatures\<close> false, which every output without signatures has. Otherwise it is
  the reduction from \<^verbatim>\<open>valid\<close>, which is never \<^verbatim>\<open>tampered\<close>: it is \<^verbatim>\<open>invalid\<close> when a
  signature is \<^verbatim>\<open>invalid\<close> or \<^verbatim>\<open>tampered\<close>; else it is the first status in the list
  that is not \<^verbatim>\<open>valid\<close>, and \<^verbatim>\<open>valid\<close> when there is none. Its severity is the greatest
  severity in the list, under the order \<^verbatim>\<open>invalid\<close> = \<^verbatim>\<open>tampered\<close> > \<^verbatim>\<open>expired\<close> =
  \<^verbatim>\<open>self-signed\<close> = \<^verbatim>\<open>untrusted\<close> > \<^verbatim>\<open>valid\<close>.
\<close>

theorem document_status_reduction:
  "\<exists>st. overallStatus (Some out) = Some st \<and>
     (\<not> hasSignatures out \<longrightarrow> st = ''none'') \<and>
     (hasSignatures out \<longrightarrow>
        st \<noteq> ''tampered'' \<and> st \<noteq> ''none'' \<and>
        severity st = Max (set (severity ''valid'' #
                        map (\<lambda>sig. severity (getOverallStatus sig)) (signatures out))) \<and>
        ((\<exists>sig \<in> set (signatures out).
            getOverallStatus sig = ''invalid'' \<or> getOverallStatus sig = ''tampered'') \<longrightarrow>
           st = ''invalid'') \<and>
        ((\<forall>sig \<in> set (signatures out).
            getOverallStatus sig \<noteq> ''invalid'' \<and> getOverallStatus sig \<noteq> ''tampered'') \<longrightarrow>
           st = (case filter (\<lambda>s. s \<noteq> ''valid'') (map getOverallStatus (signatures out)) of
                   [] \<Rightarrow> ''valid''
                 | s # _ \<Rightarrow> s))) \<and>
     (\<forall>lib pdf clock file.
        verifyPDFSignatures lib pdf clock file = Resolved out \<longrightarrow>
          (hasSignatures out \<longleftrightarrow> signatures out \<noteq> []) \<and>
          (signatures out = [] \<longrightarrow> st = ''none''))"
proof -
  have v: "''valid'' \<in> accumulators" by (simp add: accumulators_def)
  have h: "\<forall>lib pdf clock file.
        verifyPDFSignatures lib pdf clock file = Resolved out \<longrightarrow>
          (hasSignatures out \<longleftrightarrow> signatures out \<noteq> [])"
    by (auto elim!: verifyPDFSignatures_resolved)
  show ?thesis
  proof (cases "hasSignatures out")
    case False
    then have o: "overallStatus (Some out) = Some ''none''" by (simp add: overallStatus_def)
    have "\<forall>lib pdf clock file.
        verifyPDFSignatures lib pdf clock file = Resolved out \<longrightarrow>
          (hasSignatures out \<longleftrightarrow> signatures out \<noteq> []) \<and>
          (signatures out = [] \<longrightarrow> ''none'' = ''none'')"
      using h by simp
    then show ?thesis using o False by (intro exI [of _ "''none''"]) simp
  next
    case True
    let ?st = "foldl reducer ''valid'' (signatures out)"
    have o: "overallStatus (Some out) = Some ?st"
      using True by (simp add: overallStatus_def)
    have a: "?st \<in> accumulators" using foldl_reducer [OF v] by blast
    have 0: "?st \<noteq> ''tampered'' \<and> ?st \<noteq> ''none''"
      using a by (auto simp: accumulators_def)
    have 1: "severity ?st = Max (set (severity ''valid'' #
                        map (\<lambda>sig. severity (getOverallStatus sig)) (signatures out)))"
      using foldl_reducer [OF v] by blast
    have 2: "(\<exists>sig \<in> set (signatures out).
            getOverallStatus sig = ''invalid'' \<or> getOverallStatus sig = ''tampered'') \<longrightarrow>
           ?st = ''invalid''"
      using foldl_reducer_invalid [OF v] by blast
    have 3: "(\<forall>sig \<in> set (signatures out).
            getOverallStatus sig \<noteq> ''invalid'' \<and> getOverallStatus sig \<noteq> ''tampered'') \<longrightarrow>
           ?st = (case filter (\<lambda>s. s \<noteq> ''valid'') (map getOverallStatus (signatures out)) of
                   [] \<Rightarrow> ''valid''
                 | s # _ \<Rightarrow> s)"
      using foldl_reducer_first [of "signatures out" "''valid''"] by simp
    have 4: "\<forall>lib pdf clock file.
        verifyPDFSignatures lib pdf clock file = Resolved out \<longrightarrow>
          (hasSignatures out \<longleftrightarrow> signatures out \<noteq> []) \<and>
          (signatures out = [] \<longrightarrow> ?st = ''none'')"
      using h True by simp
    show ?thesis
      using o 0 1 2 3 4 True by (intro exI [of _ ?st]) blast
  qed
qed

theorem document_status_reduction_witness:
  "verifyPDFSignatures examplePlatform copyingPdfjs exampleClock (Inr twoFieldDocument)
     = Resolved exampleOutput \<and>
   hasSignatures exampleOutput \<and>
   map getOverallStatus (signatures exampleOutput) = [''valid'', ''invalid''] \<and>
   overallStatus (Some exampleOutput) = Some ''invalid'' \<and>
   verifyPDFSignatures examplePlatform examplePdfjs exampleClock (Inr unsignedDocument)
     = Resolved unsignedOutput \<and>
   signatures unsignedOutput = [] \<and> \<not> hasSignatures unsignedOutput \<and>
   overallStatus (Some unsignedOutput) = Some ''none''"
proof -
  have n: "hasSignatures exampleOutput" "signatures unsignedOutput = []"
    "\<not> hasSignatures unsignedOutput"
    by (simp_all add: exampleOutput_def unsignedOutput_def)
  have m: "\<exists>sig \<in> set (signatures exampleOutput).
             getOverallStatus sig = ''invalid'' \<or> getOverallStatus sig = ''tampered''"
  proof
    show "entry ''Signature 2'' missingEnvelopeResult \<in> set (signatures exampleOutput)"
      by (simp add: exampleOutput_def)
    show "getOverallStatus (entry ''Signature 2'' missingEnvelopeResult) = ''invalid'' \<or>
          getOverallStatus (entry ''Signature 2'' missingEnvelopeResult) = ''tampered''"
      by (simp add: entry_status example_result_status)
  qed
  from document_status_reduction [of exampleOutput] n(1) m
  have 1: "overallStatus (Some exampleOutput) = Some ''invalid''" by auto
  from document_status_reduction [of unsignedOutput] n(3)
  have 2: "overallStatus (Some unsignedOutput) = Some ''none''" by auto
  show ?thesis
    using 1 2 n example_statuses(1) example_document_verification unsigned_document_verification
    by simp
qed

subsection \<open>Byte ranges beyond the document\<close>

text \<open>
  C3, as the specification states it: a byte-range span that ends beyond the document is
  a reported error, not a truncated read. The extractor has no bounds check: asked for
  9999 bytes from offset 0 and 500 bytes from offset 20000 of the 379-byte document, it
  returns the 379 bytes there are.
\<close>

theorem out_of_range_span_is_truncated:
  "int (length twoFieldDocument) < 0 + 9999 \<and>
   int (length twoFieldDocument) < 20000 + 500 \<and>
   extractByteRange twoFieldDocument [(Num 0, Num 9999), (Num 20000, Num 500)] = twoFieldDocument"
  using out_of_range_extraction by (simp add: two_field_document_length)

text \<open>
  C3, amended. A byte-range span that ends beyond the document is not detected. Given
  non-negative numeric spans, the extractor returns the parts of the spans that lie
  inside the document, one after the other, and it cannot fail. The byte range of a
  descriptor enters its verification only through the extracted bytes: two descriptors
  that differ in nothing but ranges with the same extracted bytes have the same result,
  so a span beyond the end is verified as the span cut at the end is. The verification
  loop never stops early, and each of its entries is the verification of its own
  descriptor, so a field's byte range does not affect its siblings.
\<close>

theorem out_of_range_is_clamped:
  "(0 \<le> s1 \<and> 0 \<le> l1 \<and> 0 \<le> s2 \<and> 0 \<le> l2 \<longrightarrow>
      extractByteRange bytes [(Num s1, Num l1), (Num s2, Num l2)]
        = take (nat l1) (drop (nat s1) bytes) @ take (nat l2) (drop (nat s2) bytes)) \<and>
   (sigObj.byteRange so = Some br \<and> sigObj.byteRange so' = Some br' \<and>
    sigObj.contents so' = sigObj.contents so \<and> sigObj.reason so' = sigObj.reason so \<and>
    sigObj.location so' = sigObj.location so \<and>
    extractByteRange bytes [(element br' 0, element br' 1), (element br' 2, element br' 3)]
      = extractByteRange bytes [(element br 0, element br 1), (element br 2, element br 3)] \<longrightarrow>
      verifyPDFSignature lib now so' bytes = verifyPDFSignature lib now so bytes) \<and>
   (\<exists>sigs. verifyEach lib clock sigFields bytes 0 objs = Inr sigs \<and>
      length sigs = length objs \<and>
      (\<forall>k < length objs.
         verifyPDFSignature lib (clock k) (objs ! k) bytes
           = Resolved (VerificationResult.truncate (sigs ! k))))"
proof (intro conjI impI)
  assume "0 \<le> s1 \<and> 0 \<le> l1 \<and> 0 \<le> s2 \<and> 0 \<le> l2"
  then show "extractByteRange bytes [(Num s1, Num l1), (Num s2, Num l2)]
        = take (nat l1) (drop (nat s1) bytes) @ take (nat l2) (drop (nat s2) bytes)"
    by (simp add: extractByteRange_numbers)
next
  assume "sigObj.byteRange so = Some br \<and> sigObj.byteRange so' = Some br' \<and>
    sigObj.contents so' = sigObj.contents so \<and> sigObj.reason so' = sigObj.reason so \<and>
    sigObj.location so' = sigObj.location so \<and>
    extractByteRange bytes [(element br' 0, element br' 1), (element br' 2, element br' 3)]
      = extractByteRange bytes [(element br 0, element br 1), (element br 2, element br 3)]"
  then show "verifyPDFSignature lib now so' bytes = verifyPDFSignature lib now so bytes"
    using verification_by_extracted_bytes by blast
next
  show "\<exists>sigs. verifyEach lib clock sigFields bytes 0 objs = Inr sigs \<and>
      length sigs = length objs \<and>
      (\<forall>k < length objs.
         verifyPDFSignature lib (clock k) (objs ! k) bytes
           = Resolved (VerificationResult.truncate (sigs ! k)))"
    using verifyEach_resolves [of lib clock sigFields bytes 0 objs] by auto
qed

theorem out_of_range_is_clamped_witness:
  "extractByteRange twoFieldDocument [(Num 0, Num 9999), (Num 20000, Num 500)]
     = take 9999 (drop 0 twoFieldDocument) @ take 500 (drop 20000 twoFieldDocument) \<and>
   verifyPDFSignature forgePlatform 1700000000000 flatOutOfRange twoFieldDocument
     = verifyPDFSignature forgePlatform 1700000000000 flatWholeDocument twoFieldDocument \<and>
   (\<exists>sigs. verifyEach forgePlatform exampleClock [] twoFieldDocument 0
             [flatOutOfRange, exampleSigObj\<lparr>sigObj.contents := None\<rparr>] = Inr sigs \<and>
      length sigs = 2 \<and>
      verifyPDFSignature forgePlatform (exampleClock 1)
        (exampleSigObj\<lparr>sigObj.contents := None\<rparr>) twoFieldDocument
        = Resolved (VerificationResult.truncate (sigs ! 1)))"
proof -
  note t = out_of_range_is_clamped [where ?s1.0 = 0 and ?l1.0 = 9999 and ?s2.0 = 20000
      and ?l2.0 = 500 and bytes = twoFieldDocument and so = flatWholeDocument
      and so' = flatOutOfRange and br = "FlatRange [0, 379, 379, 0]"
      and br' = "FlatRange [0, 9999, 20000, 500]" and lib = forgePlatform
      and now = 1700000000000 and clock = exampleClock and sigFields = "[]"
      and objs = "[flatOutOfRange, exampleSigObj\<lparr>sigObj.contents := None\<rparr>]"]
  have 1: "extractByteRange twoFieldDocument [(Num 0, Num 9999), (Num 20000, Num 500)]
     = take 9999 (drop 0 twoFieldDocument) @ take 500 (drop 20000 twoFieldDocument)"
    using t by simp
  have h: "sigObj.byteRange flatWholeDocument = Some (FlatRange [0, 379, 379, 0]) \<and>
           sigObj.byteRange flatOutOfRange = Some (FlatRange [0, 9999, 20000, 500]) \<and>
           sigObj.contents flatOutOfRange = sigObj.contents flatWholeDocument \<and>
           sigObj.reason flatOutOfRange = sigObj.reason flatWholeDocument \<and>
           sigObj.location flatOutOfRange = sigObj.location flatWholeDocument"
    by (simp add: flatOutOfRange_def flatWholeDocument_def)
  have e: "extractByteRange twoFieldDocument
             [(element (FlatRange [0, 9999, 20000, 500]) 0, element (FlatRange [0, 9999, 20000, 500]) 1),
              (element (FlatRange [0, 9999, 20000, 500]) 2, element (FlatRange [0, 9999, 20000, 500]) 3)]
           = extractByteRange twoFieldDocument
             [(element (FlatRange [0, 379, 379, 0]) 0, element (FlatRange [0, 379, 379, 0]) 1),
              (element (FlatRange [0, 379, 379, 0]) 2, element (FlatRange [0, 379, 379, 0]) 3)]"
    using out_of_range_extraction whole_document_extraction by simp
  have 2: "verifyPDFSignature forgePlatform 1700000000000 flatOutOfRange twoFieldDocument
     = verifyPDFSignature forgePlatform 1700000000000 flatWholeDocument twoFieldDocument"
    using t h e by blast
  from t obtain sigs where
    v: "verifyEach forgePlatform exampleClock [] twoFieldDocument 0
          [flatOutOfRange, exampleSigObj\<lparr>sigObj.contents := None\<rparr>] = Inr sigs"
    and l: "length sigs = length [flatOutOfRange, exampleSigObj\<lparr>sigObj.contents := None\<rparr>]"
    and n: "\<forall>k < length [flatOutOfRange, exampleSigObj\<lparr>sigObj.contents := None\<rparr>].
         verifyPDFSignature forgePlatform (exampleClock k)
           ([flatOutOfRange, exampleSigObj\<lparr>sigObj.contents := None\<rparr>] ! k) twoFieldDocument
           = Resolved (VerificationResult.truncate (sigs ! k))"
    by blast
  have "verifyPDFSignature forgePlatform (exampleClock 1)
        ([flatOutOfRange, exampleSigObj\<lparr>sigObj.contents := None\<rparr>] ! 1) twoFieldDocument
        = Resolved (VerificationResult.truncate (sigs ! 1))"
    using n [rule_format, of 1] by simp
  then have 3: "\<exists>sigs. verifyEach forgePlatform exampleClock [] twoFieldDocument 0
             [flatOutOfRange, exampleSigObj\<lparr>sigObj.contents := None\<rparr>] = Inr sigs \<and>
      length sigs = 2 \<and>
      verifyPDFSignature forgePlatform (exampleClock 1)
        (exampleSigObj\<lparr>sigObj.contents := None\<rparr>) twoFieldDocument
        = Resolved (VerificationResult.truncate (sigs ! 1))"
    using v l by auto
  show ?thesis using 1 2 3 by blast
qed

subsection \<open>Certificate inspector\<close>

text \<open>
  C7. The inspector is to decode its input as PEM and, when that fails, as raw binary
  DER. The code hands the DER decoder not the file's bytes but a zero-filled array made
  from the text it read. Here the library decodes the bytes of the file as DER and as a
  certificate, the PEM attempt fails, and the inspector rejects the file.
\<close>

theorem verifyCertificate_der_file_rejected:
  "fromDer derPlatform exampleDerFile = Inr exampleDerFile \<and>
   certificateFromAsn1 derPlatform exampleDerFile = Inr exampleCertificate \<and>
   certificateFromPem derPlatform exampleDerFile = Inl (Error ''Invalid PEM formatted message.'') \<and>
   toIndex derPlatform exampleDerFile = Inr 0 \<and>
   verifyCertificate derPlatform 1700000000000 (Inr exampleDerFile)
     = Rejected (Error ''Failed to parse certificate: Too few bytes to parse DER.'')"
  by (simp add: verifyCertificate_def decodeCertificate_def derPlatform_def examplePlatform_def
        exampleDerFile_def)

end
